theory Spec2Isabelle
  imports Main
begin

section \<open>The repository client of docs/Usage\_example\_FDP.ipynb\<close>

text \<open>
  The notebook defines \<open>FDPClient\<close>, a client of a FAIR Data Point built on the
  \<open>requests\<close> library, and a loop that publishes a list of datasets with it.
  The client is embedded by explicit state passing: the object's attributes are a
  record, the network and the module-level logger are a second record (the world),
  and every method returns its result together with the updated client and world.
  A raised exception is the \<open>Inl\<close> branch of the result.

  The \<open>requests\<close>, \<open>urllib\<close> and \<open>rdflib\<close> libraries are not part of the
  repository. What the client takes from them is written out where the library
  fixes it (\<open>raise_for_status\<close> and the text of its error) and is a parameter of the
  model otherwise (record \<open>net\<close>): \<open>urljoin\<close>, the headers of a fresh session, and
  the answer of the remote side to a request given the requests sent before it.
\<close>

subsection \<open>Requests, responses, exceptions\<close>

text \<open>
  The result of \<open>Response.json()\<close>: the body does not parse (the library raises its
  \<open>JSONDecodeError\<close>, a \<open>RequestException\<close>, with the given text), it parses to an
  object (a dict; each value is kept as the text \<open>str\<close> gives for it, which is all
  the client ever reads of the token), or it parses to another JSON value
  (subscripting that with a string raises \<open>TypeError\<close> with the given text).
\<close>

datatype json_result =
    JsonError string
  | JsonDict "string \<rightharpoonup> string"
  | JsonOther string

text \<open>
  A response as the library hands it over: status code, reason phrase, the URL the
  library reports for it, headers, body text and the result of \<open>json()\<close>.
  \<open>resp_headers\<close> is the lookup function of the response's case-insensitive header
  dictionary.
\<close>

record response =
  status_code :: nat
  resp_reason :: string
  resp_url :: string
  resp_headers :: "string \<rightharpoonup> string"
  resp_text :: string
  resp_json :: json_result

text \<open>
  A request as the client hands it to the library. \<open>req_headers\<close> are the headers
  of the session the request goes through; \<open>req_verify = None\<close> means that no
  \<open>verify\<close> argument was passed, so the library's default (certificates are
  verified) applies.
\<close>

record request =
  req_method :: string
  req_url :: string
  req_headers :: "string \<rightharpoonup> string"
  req_params :: "(string \<times> string) list option"
  req_data :: "string option"
  req_json :: "(string \<times> string) list option"
  req_verify :: "bool option"

text \<open>
  What sending a request gives: the library raises a \<open>RequestException\<close> (connection
  refused, timeout, certificate failure, ...) with its text and, for some kinds, a
  response; or it returns a response.
\<close>

datatype outcome =
    Raises string "response option"
  | Returns response

record net =
  urljoin :: "string \<Rightarrow> string \<Rightarrow> string"
  default_headers :: "string \<rightharpoonup> string"
  respond :: "request list \<Rightarrow> request \<Rightarrow> outcome"

text \<open>
  The world outside the client object: the requests sent so far (oldest first), the
  lines written by \<open>logger.error\<close>, the lines written by \<open>print\<close>, and whether
  \<open>urllib3.disable_warnings\<close> has run.
\<close>

record world =
  sent :: "request list"
  logged :: "string list"
  printed :: "string list"
  warnings_disabled :: bool

text \<open>
  Exceptions. An exception raised inside an \<open>except\<close> block is chained by Python to
  the exception being handled (its \<open>__context__\<close>); every \<open>FDPClientException\<close> of
  the notebook is raised so, and its second argument is that context. A
  \<open>RequestException\<close> holds its text and the response, when it has one.
  \<open>Exception\<close> stands for any exception of another class.
\<close>

datatype exn =
    FDPClientException string "exn option"
  | RequestException string "response option"
  | KeyError string
  | TypeError string
  | ValueError string
  | Exception string

text \<open>
  Python's \<open>str(e)\<close>. For a \<open>KeyError\<close> it is the \<open>repr\<close> of the key; the only key
  the client looks up in a dictionary that may lack it is made of lower-case
  letters, whose \<open>repr\<close> is the key between single quotes.
\<close>

fun str :: "exn \<Rightarrow> string" where
  "str (FDPClientException m ctx) = m"
| "str (RequestException m r) = m"
| "str (KeyError k) = CHR 0x27 # k @ [CHR 0x27]"
| "str (TypeError m) = m"
| "str (ValueError m) = m"
| "str (Exception m) = m"

text \<open>\<open>class FDPEndPoints\<close>\<close>

definition meta :: string where
  "meta = ''meta''"

definition state :: string where
  "state = meta @ ''/state''"

definition members :: string where
  "members = ''members''"

definition expanded :: string where
  "expanded = ''expanded''"

subsection \<open>The library calls the client makes\<close>

text \<open>
  \<open>session.request(...)\<close> and \<open>requests.post(...)\<close>: the request is recorded and
  the remote side answers from the requests it has seen before.
\<close>

definition send :: "net \<Rightarrow> world \<Rightarrow> request \<Rightarrow> outcome \<times> world" where
  "send n w r = (respond n (sent w) r, w\<lparr>sent := sent w @ [r]\<rparr>)"

text \<open>The decimal digits of a number, as an f-string writes an \<open>int\<close>.\<close>

fun show_nat :: "nat \<Rightarrow> string" where
  "show_nat n =
     (if n < 10 then [char_of (48 + n)]
      else show_nat (n div 10) @ [char_of (48 + n mod 10)])"

declare show_nat.simps [simp del]

text \<open>
  \<open>Response.raise_for_status()\<close> of the library:
  \<^verbatim>\<open>
  if 400 <= self.status_code < 500:
      http_error_msg = f"{self.status_code} Client Error: {reason} for url: {self.url}"
  elif 500 <= self.status_code < 600:
      http_error_msg = f"{self.status_code} Server Error: {reason} for url: {self.url}"
  if http_error_msg:
      raise HTTPError(http_error_msg, response=self)
  \<close>
  \<open>HTTPError\<close> is a \<open>RequestException\<close>; it carries the response.
\<close>

definition http_error_msg :: "response \<Rightarrow> string" where
  "http_error_msg r =
     (if 400 \<le> status_code r \<and> status_code r < 500
      then show_nat (status_code r) @ '' Client Error: '' @ resp_reason r @ '' for url: '' @ resp_url r
      else if 500 \<le> status_code r \<and> status_code r < 600
      then show_nat (status_code r) @ '' Server Error: '' @ resp_reason r @ '' for url: '' @ resp_url r
      else [])"

definition raise_for_status :: "response \<Rightarrow> exn + unit" where
  "raise_for_status r =
     (if http_error_msg r \<noteq> []
      then Inl (RequestException (http_error_msg r) (Some r))
      else Inr ())"

text \<open>
  The two statements \<open>response = ...request(...)\<close>, \<open>response.raise_for_status()\<close>
  that open the \<open>try\<close> blocks of \<open>login_fdp\<close> and \<open>_call_method\<close>.
\<close>

definition checked :: "outcome \<Rightarrow> exn + response" where
  "checked out =
     (case out of
        Raises m ro \<Rightarrow> Inl (RequestException m ro)
      | Returns resp \<Rightarrow>
          (case raise_for_status resp of
             Inl e \<Rightarrow> Inl e
           | Inr u \<Rightarrow> Inr resp))"

text \<open>\<open>str.upper()\<close> on the ASCII letters.\<close>

definition upper_char :: "char \<Rightarrow> char" where
  "upper_char c =
     (let k = (of_char c :: nat)
      in if 97 \<le> k \<and> k \<le> 122 then char_of (k - 32) else c)"

definition upper :: "string \<Rightarrow> string" where
  "upper s = map upper_char s"

subsection \<open>class FDPClient\<close>

record client =
  base_url :: string
  username :: string
  password :: string
  token :: string
  headers :: "string \<rightharpoonup> string"
  session_headers :: "string \<rightharpoonup> string"
  ssl_verification :: bool

text \<open>
  An rdflib \<open>Graph\<close>, represented by what its \<open>serialize()\<close> does, which is all the
  client asks of it: it returns the text, or it raises (rdflib refuses to write a
  graph that holds a term which is not a valid URI).
\<close>

datatype graph = Graph (serialize: "exn + string")

text \<open>
  \<open>login_fdp\<close> reads \<open>base_url\<close>, \<open>username\<close> and \<open>password\<close> of the object under
  construction. It calls \<open>requests.post\<close> directly (a fresh session, no \<open>verify\<close>
  argument). Only a \<open>RequestException\<close> is caught; the \<open>FDPClientException\<close> raised
  in the handler is chained to it.
\<close>

definition login_request :: "net \<Rightarrow> string \<Rightarrow> string \<Rightarrow> string \<Rightarrow> request" where
  "login_request n base user pw =
     \<lparr>req_method = ''POST'', req_url = base @ ''/tokens'',
      req_headers = default_headers n, req_params = None, req_data = None,
      req_json = Some [(''email'', user), (''password'', pw)],
      req_verify = None\<rparr>"

definition login_body :: "outcome \<Rightarrow> exn + string" where
  "login_body out =
     (case checked out of
        Inl e \<Rightarrow> Inl e
      | Inr token_response \<Rightarrow>
          (case resp_json token_response of
             JsonError m \<Rightarrow> Inl (RequestException m None)
           | JsonOther m \<Rightarrow> Inl (TypeError m)
           | JsonDict d \<Rightarrow>
               (case d ''token'' of
                  None \<Rightarrow> Inl (KeyError ''token'')
                | Some t \<Rightarrow> Inr t)))"

definition login_fdp ::
  "net \<Rightarrow> world \<Rightarrow> string \<Rightarrow> string \<Rightarrow> string \<Rightarrow> (exn + string) \<times> world" where
  "login_fdp n w base user pw =
     (let (out, w1) = send n w (login_request n base user pw)
      in case login_body out of
           Inr t \<Rightarrow> (Inr t, w1)
         | Inl (RequestException m ro) \<Rightarrow>
             (Inl (FDPClientException (''Login failed: '' @ m) (Some (RequestException m ro))),
              w1\<lparr>logged := logged w1 @ [''Login failed: '' @ m]\<rparr>)
         | Inl e \<Rightarrow> (Inl e, w1))"

definition get_headers :: "string \<Rightarrow> (string \<rightharpoonup> string)" where
  "get_headers tok =
     [''Authorization'' \<mapsto> ''Bearer '' @ tok, ''Content-Type'' \<mapsto> ''text/turtle'']"

text \<open>\<open>__init__\<close>\<close>

definition FDPClient_init ::
  "net \<Rightarrow> world \<Rightarrow> string \<Rightarrow> string \<Rightarrow> string \<Rightarrow> bool \<Rightarrow> (exn + client) \<times> world" where
  "FDPClient_init n w base user pw verify_ssl =
     (case login_fdp n w base user pw of
        (Inl e, w1) \<Rightarrow> (Inl e, w1)
      | (Inr tok, w1) \<Rightarrow>
          (Inr \<lparr>base_url = base, username = user, password = pw, token = tok,
                headers = get_headers tok,
                session_headers = default_headers n ++ get_headers tok,
                ssl_verification = verify_ssl\<rparr>,
           if \<not> verify_ssl then w1\<lparr>warnings_disabled := True\<rparr> else w1))"

text \<open>\<open>_call_method\<close>\<close>

definition call_method ::
  "net \<Rightarrow> client \<Rightarrow> world \<Rightarrow> string \<Rightarrow> string \<Rightarrow> (string \<times> string) list option \<Rightarrow>
   string option \<Rightarrow> (exn + response) \<times> world" where
  "call_method n c w method path params data =
     (if upper method \<notin> set [''GET'', ''POST'', ''PUT'', ''DELETE'']
      then (Inl (ValueError (''Unsupported method '' @ method)), w)
      else
        let url = urljoin n (base_url c) path;
            (out, w1) = send n w
              \<lparr>req_method = method, req_url = url, req_headers = session_headers c,
               req_params = params, req_data = data, req_json = None,
               req_verify = Some (ssl_verification c)\<rparr>
        in case checked out of
             Inr response \<Rightarrow> (Inr response, w1)
           | Inl (RequestException m ro) \<Rightarrow>
               (Inl (FDPClientException (''Request failed:'' @ m) (Some (RequestException m ro))),
                w1\<lparr>logged := logged w1 @ [''Request failed:'' @ m] @
                   (case ro of None \<Rightarrow> [] | Some r \<Rightarrow> [resp_text r])\<rparr>)
           | Inl e \<Rightarrow> (Inl e, w1))"

definition get ::
  "net \<Rightarrow> client \<Rightarrow> world \<Rightarrow> string \<Rightarrow> (string \<times> string) list option \<Rightarrow>
   (exn + response) \<times> world" where
  "get n c w path params = call_method n c w ''GET'' path params None"

definition post ::
  "net \<Rightarrow> client \<Rightarrow> world \<Rightarrow> string \<Rightarrow> (string \<times> string) list option \<Rightarrow>
   string option \<Rightarrow> (exn + response) \<times> world" where
  "post n c w path params data = call_method n c w ''POST'' path params data"

definition update ::
  "net \<Rightarrow> client \<Rightarrow> world \<Rightarrow> string \<Rightarrow> (string \<times> string) list option \<Rightarrow>
   string option \<Rightarrow> (exn + response) \<times> world" where
  "update n c w path params data = call_method n c w ''PUT'' path params data"

definition delete ::
  "net \<Rightarrow> client \<Rightarrow> world \<Rightarrow> string \<Rightarrow> (string \<times> string) list option \<Rightarrow>
   string option \<Rightarrow> (exn + response) \<times> world" where
  "delete n c w path params data = call_method n c w ''DELETE'' path params data"

definition update_session_headers :: "client \<Rightarrow> client" where
  "update_session_headers c = c\<lparr>session_headers := session_headers c ++ headers c\<rparr>"

definition change_content_type :: "string \<Rightarrow> client \<Rightarrow> client" where
  "change_content_type content_type c =
     update_session_headers (c\<lparr>headers := (headers c)(''Content-Type'' \<mapsto> content_type)\<rparr>)"

text \<open>
  \<open>post_serialised\<close>: the content type is changed first; \<open>metadata.serialize()\<close> is
  evaluated as an argument of \<open>self.post\<close>, so when it raises no request is sent.
\<close>

definition post_serialised ::
  "net \<Rightarrow> client \<Rightarrow> world \<Rightarrow> string \<Rightarrow> graph \<Rightarrow> (exn + response) \<times> client \<times> world" where
  "post_serialised n c w resource_type metadata =
     (let c1 = change_content_type ''text/turtle'' c;
          path = base_url c1 @ ''/'' @ resource_type
      in case serialize metadata of
           Inl e \<Rightarrow> (Inl e, c1, w)
         | Inr data \<Rightarrow>
             (let (response, w1) = post n c1 w path None (Some data)
              in (response, c1, w1)))"

definition publish_record ::
  "net \<Rightarrow> client \<Rightarrow> world \<Rightarrow> string \<Rightarrow> (exn + unit) \<times> client \<times> world" where
  \<open>publish_record n c w record_url =
     (let c1 = change_content_type ''application/json'' c;
          path = record_url @ ''/'' @ state;
          data = ''{"current": "PUBLISHED"}'';
          (r, w1) = update n c1 w path None (Some data)
      in (case r of Inl e \<Rightarrow> Inl e | Inr response \<Rightarrow> Inr (), c1, w1))\<close>

text \<open>
  \<open>create_and_publish\<close>: the \<open>try\<close> block first, then the handler, which catches
  \<open>KeyError\<close> and \<open>FDPClientException\<close> and lets any other exception through. The
  header lookup raises \<open>KeyError\<close> with the lower-cased key, as the library's
  case-insensitive dictionary does. The \<open>FDPClientException\<close> raised in the handler
  is chained to the exception caught.
\<close>

definition create_and_publish_body ::
  "net \<Rightarrow> client \<Rightarrow> world \<Rightarrow> string \<Rightarrow> graph \<Rightarrow> (exn + string) \<times> client \<times> world" where
  "create_and_publish_body n c w resource_type metadata =
     (case post_serialised n c w resource_type metadata of
        (Inl e, c1, w1) \<Rightarrow> (Inl e, c1, w1)
      | (Inr post_response, c1, w1) \<Rightarrow>
          (case resp_headers post_response ''Location'' of
             None \<Rightarrow> (Inl (KeyError ''location''), c1, w1)
           | Some fdp_subject \<Rightarrow>
               (case publish_record n c1 w1 fdp_subject of
                  (Inl e, c2, w2) \<Rightarrow> (Inl e, c2, w2)
                | (Inr u, c2, w2) \<Rightarrow> (Inr fdp_subject, c2, w2))))"

fun caught :: "exn \<Rightarrow> bool" where
  "caught (KeyError k) = True"
| "caught (FDPClientException m ctx) = True"
| "caught e = False"

definition create_and_publish ::
  "net \<Rightarrow> client \<Rightarrow> world \<Rightarrow> string \<Rightarrow> graph \<Rightarrow> (exn + string) \<times> client \<times> world" where
  "create_and_publish n c w resource_type metadata =
     (case create_and_publish_body n c w resource_type metadata of
        (Inr fdp_subject, c1, w1) \<Rightarrow> (Inr fdp_subject, c1, w1)
      | (Inl e, c1, w1) \<Rightarrow>
          (if caught e
           then (Inl (FDPClientException (''Failed to create and publish record:'' @ str e) (Some e)),
                 c1,
                 w1\<lparr>logged := logged w1 @ [''Failed to create and publish record: '' @ str e]\<rparr>)
           else (Inl e, c1, w1)))"

subsection \<open>The loop over the datasets\<close>


subsection \<open>The requests of the two steps, and a caller\<close>

text \<open>
  The request \<open>_call_method\<close> hands to the session, the request of the create step
  (\<open>post_serialised\<close>, for the text the graph serialises to) and the request of the
  publish step (\<open>publish_record\<close>), each as a function of the client that sends it.
\<close>

definition session_request ::
  "net \<Rightarrow> client \<Rightarrow> string \<Rightarrow> string \<Rightarrow> (string \<times> string) list option \<Rightarrow>
   string option \<Rightarrow> request" where
  "session_request n c method path params data =
     \<lparr>req_method = method, req_url = urljoin n (base_url c) path,
      req_headers = session_headers c, req_params = params, req_data = data,
      req_json = None, req_verify = Some (ssl_verification c)\<rparr>"

definition create_request :: "net \<Rightarrow> client \<Rightarrow> string \<Rightarrow> string \<Rightarrow> request" where
  "create_request n c resource_type data =
     session_request n (change_content_type ''text/turtle'' c) ''POST''
       (base_url c @ ''/'' @ resource_type) None (Some data)"

definition state_request :: "net \<Rightarrow> client \<Rightarrow> string \<Rightarrow> request" where
  \<open>state_request n c record_url =
     session_request n (change_content_type ''application/json'' c) ''PUT''
       (record_url @ ''/meta/state'') None (Some ''{"current": "PUBLISHED"}'')\<close>

text \<open>
  The requests one call of \<open>create_and_publish\<close> sends for a graph that serialises
  to \<open>data\<close>: the create request, and the publish request when the create request
  is answered without error and the answer has a \<open>Location\<close> header.
\<close>

definition step_requests :: "net \<Rightarrow> client \<Rightarrow> world \<Rightarrow> string \<Rightarrow> string \<Rightarrow> request list" where
  "step_requests n c w rt data =
     create_request n c rt data #
     (case checked (respond n (sent w) (create_request n c rt data)) of
        Inl e \<Rightarrow> []
      | Inr resp \<Rightarrow>
          (case resp_headers resp ''Location'' of
             None \<Rightarrow> []
           | Some x \<Rightarrow> [state_request n c x]))"

text \<open>
  The exception \<open>_call_method\<close> raises when its request failed with the library's
  exception \<open>e\<close>, and the exception \<open>create_and_publish\<close> raises when its \<open>try\<close> block
  failed with \<open>e\<close>.
\<close>

definition request_failed :: "exn \<Rightarrow> exn" where
  "request_failed e = FDPClientException (''Request failed:'' @ str e) (Some e)"

definition not_published :: "exn \<Rightarrow> exn" where
  "not_published e =
     FDPClientException (''Failed to create and publish record:'' @ str e) (Some e)"

text \<open>
  A caller that uses a client through its public methods, one call after the other,
  whatever each call returns or raises.
\<close>

datatype call =
    Get string "(string \<times> string) list option"
  | Post string "(string \<times> string) list option" "string option"
  | Update string "(string \<times> string) list option" "string option"
  | Delete string "(string \<times> string) list option" "string option"
  | Post_serialised string graph
  | Publish_record string
  | Create_and_publish string graph

fun run_call :: "net \<Rightarrow> client \<Rightarrow> world \<Rightarrow> call \<Rightarrow> client \<times> world" where
  "run_call n c w (Get path params) = (c, snd (get n c w path params))"
| "run_call n c w (Post path params data) = (c, snd (post n c w path params data))"
| "run_call n c w (Update path params data) = (c, snd (update n c w path params data))"
| "run_call n c w (Delete path params data) = (c, snd (delete n c w path params data))"
| "run_call n c w (Post_serialised resource_type metadata) =
     snd (post_serialised n c w resource_type metadata)"
| "run_call n c w (Publish_record record_url) = snd (publish_record n c w record_url)"
| "run_call n c w (Create_and_publish resource_type metadata) =
     snd (create_and_publish n c w resource_type metadata)"

fun run_calls :: "net \<Rightarrow> client \<Rightarrow> world \<Rightarrow> call list \<Rightarrow> client \<times> world" where
  "run_calls n c w [] = (c, w)"
| "run_calls n c w (x # xs) = (case run_call n c w x of (c1, w1) \<Rightarrow> run_calls n c1 w1 xs)"

text \<open>
  The client holds the bearer token \<open>t\<close> in its header dictionary and in its session;
  a request carries it.
\<close>

definition bearer :: "string \<Rightarrow> client \<Rightarrow> bool" where
  "bearer t c =
     (headers c ''Authorization'' = Some (''Bearer '' @ t) \<and>
      session_headers c ''Authorization'' = Some (''Bearer '' @ t))"

definition authorised :: "string \<Rightarrow> request \<Rightarrow> bool" where
  "authorised t r = (req_headers r ''Authorization'' = Some (''Bearer '' @ t))"

text \<open>The methods \<open>_call_method\<close> accepts.\<close>

definition supported :: "string \<Rightarrow> bool" where
  "supported method = (upper method \<in> set [''GET'', ''POST'', ''PUT'', ''DELETE''])"




text \<open>The requests a run has added to the world \<open>w\<close> it started from.\<close>

definition new_requests :: "world \<Rightarrow> world \<Rightarrow> request list" where
  "new_requests w w' = drop (length (sent w)) (sent w')"

text \<open>
  What a caller can read off a raised exception without looking at its message:
  the response held by the library's exception at the end of the chain of
  contexts, and from the URL of that response the record it was sent for (the URL
  without its last eleven characters, \<open>/meta/state\<close>). In Python, for the
  exception \<open>e\<close> that \<open>create_and_publish\<close> raises:
  \<open>e.__context__.__context__.response.url[:-11]\<close>.
\<close>

fun chained_response :: "exn \<Rightarrow> response option" where
  "chained_response (FDPClientException m (Some e)) = chained_response e"
| "chained_response (RequestException m ro) = ro"
| "chained_response e = None"

definition record_of_error :: "exn \<Rightarrow> string option" where
  "record_of_error e =
     (case chained_response e of
        None \<Rightarrow> None
      | Some r \<Rightarrow> Some (take (length (resp_url r) - 11) (resp_url r)))"

subsection \<open>Example transports\<close>

text \<open>
  A scripted remote side answers the k-th request it sees with the k-th answer of
  a list, and refuses the connection once the list is used up. An answer is a
  function of the request: the examples report the URL of the request as the URL of
  the response (nothing is redirected). The URLs of the examples are absolute,
  where \<open>urljoin\<close> returns its second argument.
\<close>

type_synonym answer = "request \<Rightarrow> outcome"

definition scripted :: "answer list \<Rightarrow> request list \<Rightarrow> request \<Rightarrow> outcome" where
  "scripted answers hist r =
     (if length hist < length answers then (answers ! length hist) r
      else Raises ''connection refused'' None)"

definition ex_net :: "answer list \<Rightarrow> net" where
  "ex_net answers =
     \<lparr>urljoin = (\<lambda>base path. path),
      default_headers = [''Accept'' \<mapsto> ''*/*''],
      respond = scripted answers\<rparr>"

definition ex_response ::
  "nat \<Rightarrow> string \<Rightarrow> (string \<rightharpoonup> string) \<Rightarrow> string \<Rightarrow> json_result \<Rightarrow> answer" where
  "ex_response code reason hdrs body js r =
     Returns \<lparr>status_code = code, resp_reason = reason, resp_url = req_url r,
              resp_headers = hdrs, resp_text = body, resp_json = js\<rparr>"

definition ex_world :: world where
  "ex_world = \<lparr>sent = [], logged = [], printed = [], warnings_disabled = False\<rparr>"

definition ex_client :: client where
  "ex_client =
     \<lparr>base_url = ''https://fdp.example'', username = ''u@example.com'', password = ''pw'',
      token = ''tok'', headers = get_headers ''tok'',
      session_headers = [''Accept'' \<mapsto> ''*/*''] ++ get_headers ''tok'',
      ssl_verification = True\<rparr>"

text \<open>
  The answers of the examples: a create request accepted with and without a
  \<open>Location\<close> header, a request accepted, a request answered with status 300, a
  request refused with status 500 and a given body, and a failure in the network.
  A graph that serialises, and one that rdflib refuses to serialise.
\<close>

definition ex_graph :: graph where
  "ex_graph = Graph (Inr ''<http://example.com/test_catalog> a dcat:Catalog .'')"


definition created_1 :: answer where
  "created_1 =
     ex_response 201 ''Created'' [''Location'' \<mapsto> ''https://fdp.example/catalog/1''] []
       (JsonError ''no body'')"

definition created_no_location :: answer where
  "created_no_location = ex_response 201 ''Created'' Map.empty [] (JsonError ''no body'')"

definition ok_200 :: answer where
  "ok_200 = ex_response 200 ''OK'' Map.empty ''ok'' (JsonError ''not json'')"

definition status_300 :: answer where
  "status_300 = ex_response 300 ''Multiple Choices'' Map.empty [] (JsonError ''no body'')"

definition error_500 :: "string \<Rightarrow> answer" where
  "error_500 body =
     ex_response 500 ''Internal Server Error'' Map.empty body (JsonError ''not json'')"

definition timed_out :: answer where
  "timed_out r = Raises ''Read timed out.'' None"

text \<open>
  Answers to the login request: accepted with a token, status 300 with a token, and
  status 401. A second created record, four prepared datasets and the answers to
  the requests of their loop.
\<close>

definition login_ok :: answer where
  "login_ok = ex_response 200 ''OK'' Map.empty [] (JsonDict [''token'' \<mapsto> ''tok''])"

definition login_300 :: answer where
  "login_300 =
     ex_response 300 ''Multiple Choices'' Map.empty [] (JsonDict [''token'' \<mapsto> ''tok''])"

definition login_401 :: answer where
  "login_401 =
     ex_response 401 ''Unauthorized'' Map.empty ''bad credentials'' (JsonError ''not json'')"




text \<open>A remote side that answers only to requests that skip certificate verification.\<close>

definition untrusted_host :: "request list \<Rightarrow> request \<Rightarrow> outcome" where
  "untrusted_host hist r =
     (if req_verify r = Some False
      then ex_response 200 ''OK'' Map.empty ''ok'' (JsonDict [''token'' \<mapsto> ''tok'']) r
      else Raises ''certificate verify failed'' None)"

definition untrusted_net :: net where
  "untrusted_net = (ex_net [])\<lparr>respond := untrusted_host\<rparr>"

section \<open>The schema layer\<close>

text \<open>
  Modelled from the spec: the schema and validation layer (package \<open>sempyro\<close>:
  \<open>DCATCatalog\<close>, \<open>annotate_model\<close>, \<open>mandatory_fields\<close> and the validation of a
  record instance) is not among the sources; the notebook only calls it. The
  definitions below follow sections 3 and 4.1 of the specification: a schema is an
  ordered mapping from field names to field descriptors, \<open>mandatoryFields\<close> lists the
  names of the mandatory fields, and \<open>validate\<close> reports every mandatory field
  without a non-empty value in one \<open>MissingFieldError\<close>, and otherwise the first
  field holding a value of the wrong kind.
\<close>

datatype value_kind = UriReference | Literal | NestedRecord

datatype cardinality = Single | Multiple

record field_descriptor =
  relation :: string
  kind :: value_kind
  language :: "string option"
  card :: cardinality
  mandatory :: bool

type_synonym record_schema = "(string \<times> field_descriptor) list"

datatype field_value =
    UriValue string
  | LiteralValue string "string option"
  | NestedValue string

type_synonym record_instance = "string \<rightharpoonup> field_value list"

datatype validation_error =
    MissingFieldError "string list"
  | TypeMismatchError string

definition mandatoryFields :: "record_schema \<Rightarrow> string list" where
  "mandatoryFields schema = map fst (filter (\<lambda>(name, d). mandatory d) schema)"

definition absent :: "record_instance \<Rightarrow> string \<Rightarrow> bool" where
  "absent vals name = (case vals name of None \<Rightarrow> True | Some vs \<Rightarrow> vs = [])"

fun kind_of :: "field_value \<Rightarrow> value_kind" where
  "kind_of (UriValue u) = UriReference"
| "kind_of (LiteralValue t l) = Literal"
| "kind_of (NestedValue s) = NestedRecord"

definition mismatched :: "record_instance \<Rightarrow> string \<times> field_descriptor \<Rightarrow> bool" where
  "mismatched vals f =
     (case vals (fst f) of
        None \<Rightarrow> False
      | Some vs \<Rightarrow> list_ex (\<lambda>v. kind_of v \<noteq> kind (snd f)) vs)"

definition validate :: "record_schema \<Rightarrow> record_instance \<Rightarrow> validation_error + unit" where
  "validate schema vals =
     (let missing = filter (absent vals) (mandatoryFields schema)
      in if missing \<noteq> [] then Inl (MissingFieldError missing)
         else (case filter (mismatched vals) schema of
                 [] \<Rightarrow> Inr ()
               | f # fs \<Rightarrow> Inl (TypeMismatchError (fst f))))"

text \<open>
  The catalog schema of the scenario: \<open>title\<close> and \<open>description\<close> mandatory (the two
  names the notebook prints for \<open>DCATCatalog\<close>), \<open>publisher\<close> optional.
\<close>

definition catalog_schema :: record_schema where
  "catalog_schema =
     [(''title'',
       \<lparr>relation = ''http://purl.org/dc/terms/title'', kind = Literal, language = None,
        card = Multiple, mandatory = True\<rparr>),
      (''description'',
       \<lparr>relation = ''http://purl.org/dc/terms/description'', kind = Literal, language = None,
        card = Multiple, mandatory = True\<rparr>),
      (''publisher'',
       \<lparr>relation = ''http://purl.org/dc/terms/publisher'', kind = UriReference, language = None,
        card = Multiple, mandatory = False\<rparr>)]"

section \<open>Properties\<close>

subsection \<open>What each method sends and returns\<close>

lemma upper_GET: "upper ''GET'' = ''GET''" by code_simp
lemma upper_POST: "upper ''POST'' = ''POST''" by code_simp
lemma upper_PUT: "upper ''PUT'' = ''PUT''" by code_simp
lemma upper_DELETE: "upper ''DELETE'' = ''DELETE''" by code_simp

lemma show_nat_401: "show_nat 401 = ''401''" by code_simp
lemma show_nat_500: "show_nat 500 = ''500''" by code_simp

lemma http_error_msg_empty:
  "(http_error_msg r = []) = (\<not> (400 \<le> status_code r \<and> status_code r < 600))"
  by (auto simp: http_error_msg_def)

lemma raise_for_status_eq:
  "raise_for_status r =
     (if 400 \<le> status_code r \<and> status_code r < 600
      then Inl (RequestException (http_error_msg r) (Some r)) else Inr ())"
  by (simp add: raise_for_status_def http_error_msg_empty)

lemma http_error_msg_names_url:
  "400 \<le> status_code r \<Longrightarrow> status_code r < 600 \<Longrightarrow>
   \<exists>pre. http_error_msg r = pre @ '' for url: '' @ resp_url r"
  by (auto simp: http_error_msg_def)

lemma checked_Inl: "checked out = Inl e \<Longrightarrow> \<exists>m ro. e = RequestException m ro"
  by (auto simp: checked_def raise_for_status_eq split: outcome.splits if_splits)

lemma checked_Returns:
  "checked (Returns resp) =
     (if 400 \<le> status_code resp \<and> status_code resp < 600
      then Inl (RequestException (http_error_msg resp) (Some resp)) else Inr resp)"
  by (simp add: checked_def raise_for_status_eq)

lemma checked_Raises: "checked (Raises m ro) = Inl (RequestException m ro)"
  by (simp add: checked_def)

lemma call_method_sent:
  "upper method \<in> set [''GET'', ''POST'', ''PUT'', ''DELETE''] \<Longrightarrow>
   sent (snd (call_method n c w method path params data)) =
   sent w @ [session_request n c method path params data]"
  by (auto simp: call_method_def send_def session_request_def Let_def split: sum.splits exn.splits)


lemma call_method_result:
  "upper method \<in> set [''GET'', ''POST'', ''PUT'', ''DELETE''] \<Longrightarrow>
   fst (call_method n c w method path params data) =
   (case checked (respond n (sent w) (session_request n c method path params data)) of
      Inr r \<Rightarrow> Inr r
    | Inl e \<Rightarrow> Inl (request_failed e))"
  by (auto simp: call_method_def send_def session_request_def request_failed_def Let_def
      split: sum.splits exn.splits dest: checked_Inl)

lemma change_content_type_twice:
  "change_content_type a (change_content_type b c) = change_content_type a c"
  by (auto simp: change_content_type_def update_session_headers_def map_add_def fun_eq_iff split: option.splits)

lemma change_content_type_fields:
  "base_url (change_content_type a c) = base_url c"
  "ssl_verification (change_content_type a c) = ssl_verification c"
  "token (change_content_type a c) = token c"
  by (simp_all add: change_content_type_def update_session_headers_def)

lemma post_serialised_client:
  "fst (snd (post_serialised n c w rt md)) = change_content_type ''text/turtle'' c"
  by (simp add: post_serialised_def split_beta Let_def split: sum.splits)

lemma post_serialised_raises:
  "serialize md = Inl e \<Longrightarrow>
   post_serialised n c w rt md = (Inl e, change_content_type ''text/turtle'' c, w)"
  by (simp add: post_serialised_def Let_def)

lemma post_serialised_sent:
  "serialize md = Inr data \<Longrightarrow>
   sent (snd (snd (post_serialised n c w rt md))) = sent w @ [create_request n c rt data]"
  by (simp add: post_serialised_def post_def split_beta Let_def call_method_sent upper_POST
      create_request_def session_request_def change_content_type_fields)


lemma post_serialised_result:
  "serialize md = Inr data \<Longrightarrow>
   fst (post_serialised n c w rt md) =
   (case checked (respond n (sent w) (create_request n c rt data)) of
      Inr r \<Rightarrow> Inr r
    | Inl e \<Rightarrow> Inl (request_failed e))"
  by (simp add: post_serialised_def post_def split_beta Let_def call_method_result upper_POST
      create_request_def session_request_def change_content_type_fields)

lemma publish_record_sent:
  "sent (snd (snd (publish_record n c w x))) = sent w @ [state_request n c x]"
  by (simp add: publish_record_def update_def split_beta Let_def call_method_sent upper_PUT
      state_request_def session_request_def change_content_type_fields state_def meta_def)


lemma publish_record_client:
  "fst (snd (publish_record n c w x)) = change_content_type ''application/json'' c"
  by (simp add: publish_record_def split_beta Let_def)

lemma publish_record_result:
  "fst (publish_record n c w x) =
   (case checked (respond n (sent w) (state_request n c x)) of
      Inr r \<Rightarrow> Inr ()
    | Inl e \<Rightarrow> Inl (request_failed e))"
  by (simp add: publish_record_def update_def split_beta Let_def call_method_result upper_PUT
      state_request_def session_request_def change_content_type_fields state_def meta_def
      split: sum.splits)

lemma state_request_change:
  "state_request n (change_content_type a c) x = state_request n c x"
  by (simp add: state_request_def session_request_def change_content_type_twice change_content_type_fields)


text \<open>The whole of \<open>create_and_publish_body\<close> for a graph that serialises.\<close>

lemma create_and_publish_body_eq:
  assumes "serialize md = Inr data"
  shows "fst (create_and_publish_body n c w rt md) =
   (case checked (respond n (sent w) (create_request n c rt data)) of
      Inl e \<Rightarrow> Inl (request_failed e)
    | Inr resp \<Rightarrow>
        (case resp_headers resp ''Location'' of
           None \<Rightarrow> Inl (KeyError ''location'')
         | Some x \<Rightarrow>
             (case checked (respond n (sent w @ [create_request n c rt data]) (state_request n c x)) of
                Inl e \<Rightarrow> Inl (request_failed e)
              | Inr r2 \<Rightarrow> Inr x)))
   \<and> sent (snd (snd (create_and_publish_body n c w rt md))) = sent w @ step_requests n c w rt data
   \<and> fst (snd (create_and_publish_body n c w rt md)) =
     (case checked (respond n (sent w) (create_request n c rt data)) of
        Inl e \<Rightarrow> change_content_type ''text/turtle'' c
      | Inr resp \<Rightarrow>
          (case resp_headers resp ''Location'' of
             None \<Rightarrow> change_content_type ''text/turtle'' c
           | Some x \<Rightarrow> change_content_type ''application/json'' c))"
proof -
  obtain r c1 w1 where p: "post_serialised n c w rt md = (r, c1, w1)"
    by (cases "post_serialised n c w rt md") auto
  have r: "r = (case checked (respond n (sent w) (create_request n c rt data)) of
      Inr r \<Rightarrow> Inr r
    | Inl e \<Rightarrow> Inl (request_failed e))"
    using post_serialised_result [OF assms, of n c w rt] p by simp
  have c1: "c1 = change_content_type ''text/turtle'' c"
    using post_serialised_client [of n c w rt md] p by simp
  have w1: "sent w1 = sent w @ [create_request n c rt data]"
    using post_serialised_sent [OF assms, of n c w rt] p by simp
  show ?thesis
  proof (cases "checked (respond n (sent w) (create_request n c rt data))")
    case (Inl e)
    then show ?thesis using p r w1 c1 by (simp add: create_and_publish_body_def step_requests_def)
  next
    case (Inr resp)
    show ?thesis
    proof (cases "resp_headers resp ''Location''")
      case None
      then show ?thesis using p r Inr w1 c1 by (simp add: create_and_publish_body_def step_requests_def)
    next
      case (Some x)
      obtain r2 c2 w2 where q: "publish_record n c1 w1 x = (r2, c2, w2)"
        by (cases "publish_record n c1 w1 x") auto
      have "r2 = (case checked (respond n (sent w1) (state_request n c1 x)) of
          Inr r \<Rightarrow> Inr ()
        | Inl e \<Rightarrow> Inl (request_failed e))"
        using publish_record_result [of n c1 w1 x] q by simp
      moreover have "sent w2 = sent w1 @ [state_request n c1 x]"
        using publish_record_sent [of n c1 w1 x] q by simp
      moreover have "c2 = change_content_type ''application/json'' c1"
        using publish_record_client [of n c1 w1 x] q by simp
      ultimately show ?thesis using p r Inr Some q w1 c1
        by (simp add: create_and_publish_body_def step_requests_def state_request_change
            change_content_type_twice split: sum.splits)
    qed
  qed
qed

lemma create_and_publish_body_raises:
  "serialize md = Inl e \<Longrightarrow>
   create_and_publish_body n c w rt md = (Inl e, change_content_type ''text/turtle'' c, w)"
  by (simp add: create_and_publish_body_def post_serialised_raises)


lemma caught_request_failed: "caught (request_failed e)"
  by (simp add: request_failed_def)

lemma create_and_publish_result:
  assumes "serialize md = Inr data"
  shows "fst (create_and_publish n c w rt md) =
   (case checked (respond n (sent w) (create_request n c rt data)) of
      Inl e \<Rightarrow> Inl (not_published (request_failed e))
    | Inr resp \<Rightarrow>
        (case resp_headers resp ''Location'' of
           None \<Rightarrow> Inl (not_published (KeyError ''location''))
         | Some x \<Rightarrow>
             (case checked (respond n (sent w @ [create_request n c rt data]) (state_request n c x)) of
                Inl e \<Rightarrow> Inl (not_published (request_failed e))
              | Inr r2 \<Rightarrow> Inr x)))"
proof -
  obtain r c1 w1 where p: "create_and_publish_body n c w rt md = (r, c1, w1)"
    by (cases "create_and_publish_body n c w rt md") auto
  then show ?thesis
    using create_and_publish_body_eq [OF assms, of n c w rt]
    by (auto simp: create_and_publish_def not_published_def caught_request_failed
        split: sum.splits option.splits)
qed

lemma create_and_publish_sent:
  assumes "serialize md = Inr data"
  shows "sent (snd (snd (create_and_publish n c w rt md))) = sent w @ step_requests n c w rt data"
proof -
  obtain r c1 w1 where p: "create_and_publish_body n c w rt md = (r, c1, w1)"
    by (cases "create_and_publish_body n c w rt md") auto
  then show ?thesis
    using create_and_publish_body_eq [OF assms, of n c w rt]
    by (auto simp: create_and_publish_def split: sum.splits)
qed


lemma create_and_publish_client:
  assumes "serialize md = Inr data"
  shows "fst (snd (create_and_publish n c w rt md)) =
     (case checked (respond n (sent w) (create_request n c rt data)) of
        Inl e \<Rightarrow> change_content_type ''text/turtle'' c
      | Inr resp \<Rightarrow>
          (case resp_headers resp ''Location'' of
             None \<Rightarrow> change_content_type ''text/turtle'' c
           | Some x \<Rightarrow> change_content_type ''application/json'' c))"
proof -
  obtain r c1 w1 where p: "create_and_publish_body n c w rt md = (r, c1, w1)"
    by (cases "create_and_publish_body n c w rt md") auto
  then show ?thesis
    using create_and_publish_body_eq [OF assms, of n c w rt]
    by (auto simp: create_and_publish_def split: sum.splits)
qed

lemma create_and_publish_raises:
  "serialize md = Inl e \<Longrightarrow>
   fst (create_and_publish n c w rt md) = (if caught e then Inl (not_published e) else Inl e)
   \<and> fst (snd (create_and_publish n c w rt md)) = change_content_type ''text/turtle'' c
   \<and> sent (snd (snd (create_and_publish n c w rt md))) = sent w"
  by (simp add: create_and_publish_def create_and_publish_body_raises not_published_def)

lemmas ex_defs = ex_net_def scripted_def ex_response_def ex_world_def created_1_def
  created_no_location_def ok_200_def error_500_def status_300_def timed_out_def
  checked_Returns checked_Raises http_error_msg_def show_nat_401 show_nat_500

lemma serialize_ex_graph:
  "serialize ex_graph = Inr ''<http://example.com/test_catalog> a dcat:Catalog .''"
  by (simp add: ex_graph_def)

lemmas req_defs = create_request_def state_request_def session_request_def
  change_content_type_def update_session_headers_def ex_client_def get_headers_def

lemmas run_defs = ex_defs req_defs not_published_def request_failed_def

subsection \<open>The publish request\<close>

text \<open>
  C1. For every client, world and record URI, \<open>publish_record\<close> sends exactly one
  request: a \<open>PUT\<close> whose path is the record URI followed by \<open>/meta/state\<close> (handed
  to \<open>urljoin\<close> with the base URL, as every path of the client is), whose body is
  the string \<open>{"current": "PUBLISHED"}\<close>, and whose \<open>Content-Type\<close> is
  \<open>application/json\<close>, while the request of the create step (\<open>post_serialised\<close>,
  for a graph that serialises) carries \<open>text/turtle\<close>. The request is sent whether
  or not the call then raises.
\<close>

theorem publish_record_request:
  \<open>sent (snd (snd (publish_record n c w record_url))) =
     sent w @
     [\<lparr>req_method = ''PUT'',
       req_url = urljoin n (base_url c) (record_url @ ''/meta/state''),
       req_headers = session_headers c ++ (headers c)(''Content-Type'' \<mapsto> ''application/json''),
       req_params = None,
       req_data = Some ''{"current": "PUBLISHED"}'',
       req_json = None,
       req_verify = Some (ssl_verification c)\<rparr>]
   \<and> req_headers (last (sent (snd (snd (publish_record n c w record_url))))) ''Content-Type''
       = Some ''application/json''
   \<and> (\<forall>data. serialize metadata = Inr data \<longrightarrow>
        req_headers (last (sent (snd (snd (post_serialised n c' w' resource_type metadata)))))
          ''Content-Type'' = Some ''text/turtle'')\<close>
  by (simp add: publish_record_sent post_serialised_sent state_request_def create_request_def
      session_request_def change_content_type_def update_session_headers_def)

theorem publish_record_request_witness:
  \<open>serialize ex_graph = Inr ''<http://example.com/test_catalog> a dcat:Catalog .''
   \<and> req_headers (last (sent (snd (snd (post_serialised (ex_net []) ex_client ex_world ''catalog''
                                          ex_graph))))) ''Content-Type'' = Some ''text/turtle''
   \<and> map req_url (sent (snd (snd (publish_record (ex_net []) ex_client ex_world
                                     ''https://fdp.example/catalog/1''))))
       = [''https://fdp.example/catalog/1/meta/state'']
   \<and> map req_data (sent (snd (snd (publish_record (ex_net []) ex_client ex_world
                                     ''https://fdp.example/catalog/1''))))
       = [Some ''{"current": "PUBLISHED"}'']\<close>
  using publish_record_request [where n = "ex_net []" and c = ex_client and w = ex_world
      and record_url = "''https://fdp.example/catalog/1''" and metadata = ex_graph
      and c' = ex_client and w' = ex_world and resource_type = "''catalog''"] serialize_ex_graph
  by (simp add: ex_net_def ex_world_def)

subsection \<open>The identity a create request returns\<close>

text \<open>
  C2, as stated, fails: a create request answered with status 201 and a \<open>Location\<close>
  header, followed by a publish request answered with status 500, makes
  \<open>create_and_publish\<close> raise; the value of the header is not returned.
\<close>

theorem create_and_publish_created_not_returned:
  "serialize ex_graph = Inr ''<http://example.com/test_catalog> a dcat:Catalog .''
   \<and> respond (ex_net [created_1, error_500 ''down'']) (sent ex_world)
       (create_request (ex_net [created_1, error_500 ''down'']) ex_client ''catalog''
          ''<http://example.com/test_catalog> a dcat:Catalog .'')
     = Returns \<lparr>status_code = 201, resp_reason = ''Created'',
          resp_url = ''https://fdp.example/catalog'',
          resp_headers = [''Location'' \<mapsto> ''https://fdp.example/catalog/1''],
          resp_text = [], resp_json = JsonError ''no body''\<rparr>
   \<and> map_sum str id
        (fst (create_and_publish (ex_net [created_1, error_500 ''down'']) ex_client ex_world
                ''catalog'' ex_graph))
     = Inl (''Failed to create and publish record:Request failed:'' @
            ''500 Server Error: Internal Server Error for url: '' @
            ''https://fdp.example/catalog/1/meta/state'')"
  by (simp add: create_and_publish_result [OF serialize_ex_graph] serialize_ex_graph ex_defs req_defs
      not_published_def request_failed_def)

text \<open>
  C2, amended. When the create request (sent for a graph that serialises) is
  answered with a 2xx status: without a \<open>Location\<close> header \<open>create_and_publish\<close>
  raises \<open>FDPClientException\<close> and has sent the create request only; with a
  \<open>Location\<close> header of value \<open>x\<close> it sends the publish request for \<open>x\<close> and
  returns exactly \<open>x\<close> when that request is answered without error, and raises
  \<open>FDPClientException\<close> when it is not. No other value is ever returned.
\<close>

theorem create_and_publish_identity:
  assumes "serialize metadata = Inr data"
    and "respond n (sent w) (create_request n c resource_type data) = Returns resp"
    and "200 \<le> status_code resp" and "status_code resp < 300"
  shows "fst (create_and_publish n c w resource_type metadata) =
           (case resp_headers resp ''Location'' of
              None \<Rightarrow> Inl (not_published (KeyError ''location''))
            | Some x \<Rightarrow>
                (case checked (respond n (sent w @ [create_request n c resource_type data])
                                (state_request n c x)) of
                   Inr r2 \<Rightarrow> Inr x
                 | Inl e \<Rightarrow> Inl (not_published (request_failed e))))
         \<and> new_requests w (snd (snd (create_and_publish n c w resource_type metadata))) =
           (case resp_headers resp ''Location'' of
              None \<Rightarrow> [create_request n c resource_type data]
            | Some x \<Rightarrow> [create_request n c resource_type data, state_request n c x])"
proof -
  have ok: "checked (respond n (sent w) (create_request n c resource_type data)) = Inr resp"
    using assms by (simp add: checked_Returns)
  show ?thesis
    by (simp add: create_and_publish_result [OF assms(1)] create_and_publish_sent [OF assms(1)]
        step_requests_def new_requests_def ok split: option.splits sum.splits)
qed

theorem create_and_publish_identity_witness:
  "fst (create_and_publish (ex_net [created_1, ok_200]) ex_client ex_world ''catalog'' ex_graph)
     = Inr ''https://fdp.example/catalog/1''
   \<and> fst (create_and_publish (ex_net [created_no_location, ok_200]) ex_client ex_world ''catalog'' ex_graph)
     = Inl (FDPClientException
             (''Failed to create and publish record:'' @ str (KeyError ''location''))
             (Some (KeyError ''location'')))
   \<and> new_requests ex_world
        (snd (snd (create_and_publish (ex_net [created_no_location, ok_200]) ex_client ex_world
                     ''catalog'' ex_graph)))
     = [create_request (ex_net [created_no_location, ok_200]) ex_client ''catalog''
          ''<http://example.com/test_catalog> a dcat:Catalog .'']"
proof -
  let ?d = "''<http://example.com/test_catalog> a dcat:Catalog .''"
  have a: "respond (ex_net [created_1, ok_200]) (sent ex_world)
             (create_request (ex_net [created_1, ok_200]) ex_client ''catalog'' ?d)
           = Returns \<lparr>status_code = 201, resp_reason = ''Created'',
                resp_url = ''https://fdp.example/catalog'',
                resp_headers = [''Location'' \<mapsto> ''https://fdp.example/catalog/1''],
                resp_text = [], resp_json = JsonError ''no body''\<rparr>"
    by (simp add: ex_defs req_defs)
  have b: "respond (ex_net [created_no_location, ok_200]) (sent ex_world)
             (create_request (ex_net [created_no_location, ok_200]) ex_client ''catalog'' ?d)
           = Returns \<lparr>status_code = 201, resp_reason = ''Created'',
                resp_url = ''https://fdp.example/catalog'', resp_headers = Map.empty,
                resp_text = [], resp_json = JsonError ''no body''\<rparr>"
    by (simp add: ex_defs req_defs)
  show ?thesis
    using create_and_publish_identity [OF serialize_ex_graph a]
      create_and_publish_identity [OF serialize_ex_graph b]
    by (simp add: ex_defs not_published_def)
qed

subsection \<open>The content type is shared state\<close>

text \<open>
  C5, as stated, fails: on a client whose header dictionary and session both hold
  \<open>text/turtle\<close>, one call of \<open>publish_record\<close> leaves \<open>application/json\<close> in both.
\<close>

theorem publish_record_changes_headers:
  "headers ex_client ''Content-Type'' = Some ''text/turtle''
   \<and> session_headers ex_client ''Content-Type'' = Some ''text/turtle''
   \<and> headers (fst (snd (publish_record (ex_net []) ex_client ex_world ''https://fdp.example/catalog/1'')))
        ''Content-Type'' = Some ''application/json''
   \<and> session_headers (fst (snd (publish_record (ex_net []) ex_client ex_world ''https://fdp.example/catalog/1'')))
        ''Content-Type'' = Some ''application/json''"
  by (simp add: publish_record_client change_content_type_def update_session_headers_def
      ex_client_def get_headers_def)

text \<open>
  C5, amended. \<open>post_serialised\<close> and \<open>publish_record\<close> each overwrite the
  \<open>Content-Type\<close> entry of the client's header dictionary with their own media type
  and apply the dictionary to the session headers; no other attribute of the client
  changes, and the request each call sends carries the media type of that call.
\<close>

theorem content_type_set_per_call:
  "fst (snd (post_serialised n c w resource_type metadata)) =
     c\<lparr>headers := (headers c)(''Content-Type'' \<mapsto> ''text/turtle''),
       session_headers := session_headers c ++ (headers c)(''Content-Type'' \<mapsto> ''text/turtle'')\<rparr>
   \<and> fst (snd (publish_record n c w record_url)) =
     c\<lparr>headers := (headers c)(''Content-Type'' \<mapsto> ''application/json''),
       session_headers := session_headers c ++ (headers c)(''Content-Type'' \<mapsto> ''application/json'')\<rparr>
   \<and> (\<forall>data. serialize metadata = Inr data \<longrightarrow>
        req_headers (last (sent (snd (snd (post_serialised n c w resource_type metadata)))))
          ''Content-Type'' = Some ''text/turtle'')
   \<and> req_headers (last (sent (snd (snd (publish_record n c w record_url)))))
        ''Content-Type'' = Some ''application/json''"
  by (simp add: publish_record_client post_serialised_client publish_record_sent post_serialised_sent
      state_request_def create_request_def session_request_def change_content_type_def
      update_session_headers_def)

theorem content_type_set_per_call_witness:
  "serialize ex_graph = Inr ''<http://example.com/test_catalog> a dcat:Catalog .''
   \<and> req_headers (last (sent (snd (snd (post_serialised (ex_net []) ex_client ex_world ''catalog''
                                          ex_graph))))) ''Content-Type'' = Some ''text/turtle''
   \<and> headers (fst (snd (post_serialised (ex_net []) ex_client ex_world ''catalog'' ex_graph)))
        ''Content-Type'' = Some ''text/turtle''
   \<and> headers (fst (snd (publish_record (ex_net []) ex_client ex_world
                           ''https://fdp.example/catalog/1''))) ''Content-Type''
       = Some ''application/json''"
  using content_type_set_per_call [of "ex_net []" ex_client ex_world "''catalog''" ex_graph
      "''https://fdp.example/catalog/1''"] serialize_ex_graph
  by simp

subsection \<open>A failed publish step\<close>

text \<open>
  C6. Let the create request be answered without error with a \<open>Location\<close> header
  of value \<open>x\<close>, and the publish request with an error. Then \<open>create_and_publish\<close>
  raises having sent these two requests and nothing else: no request of the client
  removes or changes the created record, which is held by the remote side under
  \<open>x\<close>. Calling \<open>publish_record\<close> with \<open>x\<close> afterwards sends the same \<open>PUT\<close> request
  again and no create request, and it returns normally exactly when that request is
  answered without error.
\<close>

theorem publish_failure_keeps_record:
  assumes "serialize metadata = Inr data"
    and "checked (respond n (sent w) (create_request n c resource_type data)) = Inr resp"
    and "resp_headers resp ''Location'' = Some x"
    and "checked (respond n (sent w @ [create_request n c resource_type data])
                   (state_request n c x)) = Inl e"
    and "create_and_publish n c w resource_type metadata = (r1, c1, w1)"
    and "publish_record n c1 w1 x = (r2, c2, w2)"
  shows "r1 = Inl (not_published (request_failed e))
       \<and> new_requests w w1 = [create_request n c resource_type data, state_request n c x]
       \<and> new_requests w1 w2 = [state_request n c x]
       \<and> req_method (state_request n c x) = ''PUT''
       \<and> r2 = (case checked (respond n (sent w1) (state_request n c x)) of
                 Inr r \<Rightarrow> Inr ()
               | Inl e' \<Rightarrow> Inl (request_failed e'))"
proof -
  have r1: "r1 = fst (create_and_publish n c w resource_type metadata)"
    and c1: "c1 = fst (snd (create_and_publish n c w resource_type metadata))"
    and w1: "w1 = snd (snd (create_and_publish n c w resource_type metadata))"
    using assms(5) by simp_all
  have r2: "r2 = fst (publish_record n c1 w1 x)"
    and w2: "w2 = snd (snd (publish_record n c1 w1 x))"
    using assms(6) by simp_all
  have c1': "c1 = change_content_type ''application/json'' c"
    using assms(2,3) by (simp add: c1 create_and_publish_client [OF assms(1)])
  have "r1 = Inl (not_published (request_failed e))"
    using assms(2,3,4) by (simp add: r1 create_and_publish_result [OF assms(1)])
  moreover have "new_requests w w1 = [create_request n c resource_type data, state_request n c x]"
    using assms(2,3)
    by (simp add: w1 new_requests_def create_and_publish_sent [OF assms(1)] step_requests_def)
  moreover have "new_requests w1 w2 = [state_request n c x]"
    by (simp add: w2 new_requests_def publish_record_sent c1' state_request_change)
  moreover have "req_method (state_request n c x) = ''PUT''"
    by (simp add: state_request_def session_request_def)
  moreover have "r2 = (case checked (respond n (sent w1) (state_request n c x)) of
                 Inr r \<Rightarrow> Inr ()
               | Inl e' \<Rightarrow> Inl (request_failed e'))"
    by (simp add: r2 publish_record_result c1' state_request_change)
  ultimately show ?thesis by simp
qed

theorem publish_failure_keeps_record_witness:
  "map_sum str id
     (fst (create_and_publish (ex_net [created_1, error_500 ''down'', ok_200]) ex_client ex_world
             ''catalog'' ex_graph))
     = Inl (''Failed to create and publish record:Request failed:'' @
            ''500 Server Error: Internal Server Error for url: '' @
            ''https://fdp.example/catalog/1/meta/state'')
   \<and> fst (publish_record (ex_net [created_1, error_500 ''down'', ok_200])
           (fst (snd (create_and_publish (ex_net [created_1, error_500 ''down'', ok_200]) ex_client
                        ex_world ''catalog'' ex_graph)))
           (snd (snd (create_and_publish (ex_net [created_1, error_500 ''down'', ok_200]) ex_client
                        ex_world ''catalog'' ex_graph)))
           ''https://fdp.example/catalog/1'')
     = Inr ()"
proof -
  let ?n = "ex_net [created_1, error_500 ''down'', ok_200]"
  let ?d = "''<http://example.com/test_catalog> a dcat:Catalog .''"
  let ?x = "''https://fdp.example/catalog/1''"
  let ?run = "create_and_publish ?n ex_client ex_world ''catalog'' ex_graph"
  let ?retry = "publish_record ?n (fst (snd ?run)) (snd (snd ?run)) ?x"
  let ?r1 = "\<lparr>status_code = 201, resp_reason = ''Created'',
                resp_url = ''https://fdp.example/catalog'',
                resp_headers = [''Location'' \<mapsto> ''https://fdp.example/catalog/1''],
                resp_text = [], resp_json = JsonError ''no body''\<rparr>"
  let ?r2 = "\<lparr>status_code = 500, resp_reason = ''Internal Server Error'',
                resp_url = ''https://fdp.example/catalog/1/meta/state'',
                resp_headers = Map.empty, resp_text = ''down'',
                resp_json = JsonError ''not json''\<rparr>"
  let ?e = "RequestException
              (''500 Server Error: Internal Server Error for url: '' @
               ''https://fdp.example/catalog/1/meta/state'') (Some ?r2)"
  have a: "checked (respond ?n (sent ex_world) (create_request ?n ex_client ''catalog'' ?d)) = Inr ?r1"
    by (simp add: ex_defs req_defs)
  have b: "resp_headers ?r1 ''Location'' = Some ?x"
    by simp
  have c: "checked (respond ?n (sent ex_world @ [create_request ?n ex_client ''catalog'' ?d])
                      (state_request ?n ex_client ?x)) = Inl ?e"
    by (simp add: ex_defs req_defs)
  have d: "?run = (fst ?run, fst (snd ?run), snd (snd ?run))"
    by simp
  have e: "?retry = (fst ?retry, fst (snd ?retry), snd (snd ?retry))"
    by simp
  have s: "sent (snd (snd ?run)) =
             [create_request ?n ex_client ''catalog'' ?d, state_request ?n ex_client ?x]"
    using a by (simp add: create_and_publish_sent [OF serialize_ex_graph] step_requests_def ex_world_def)
  have f: "checked (respond ?n (sent (snd (snd ?run))) (state_request ?n ex_client ?x))
           = Inr \<lparr>status_code = 200, resp_reason = ''OK'',
                  resp_url = ''https://fdp.example/catalog/1/meta/state'',
                  resp_headers = Map.empty, resp_text = ''ok'',
                  resp_json = JsonError ''not json''\<rparr>"
    unfolding s by (simp add: ex_defs req_defs)
  show ?thesis
    using publish_failure_keeps_record [OF serialize_ex_graph a b c d e] f
    by (simp add: not_published_def request_failed_def)
qed

text \<open>
  C10, as stated, fails: the error raised after a successful create and a failed
  publish exposes the identity of the created record. For a publish request
  answered with status 500 the message of the error ends with the URL of that
  request, which is the \<open>Location\<close> value followed by \<open>/meta/state\<close>, and the
  library's exception chained to the error holds the response with the same URL:
  \<open>record_of_error\<close> reads the identity off the raised error alone.
\<close>

theorem error_names_created_record:
  "serialize ex_graph = Inr ''<http://example.com/test_catalog> a dcat:Catalog .''
   \<and> respond (ex_net [created_1, error_500 ''down'']) (sent ex_world)
       (create_request (ex_net [created_1, error_500 ''down'']) ex_client ''catalog''
          ''<http://example.com/test_catalog> a dcat:Catalog .'')
     = Returns \<lparr>status_code = 201, resp_reason = ''Created'',
          resp_url = ''https://fdp.example/catalog'',
          resp_headers = [''Location'' \<mapsto> ''https://fdp.example/catalog/1''],
          resp_text = [], resp_json = JsonError ''no body''\<rparr>
   \<and> map_sum str id
        (fst (create_and_publish (ex_net [created_1, error_500 ''down'']) ex_client ex_world
                ''catalog'' ex_graph))
     = Inl (''Failed to create and publish record:Request failed:'' @
            ''500 Server Error: Internal Server Error for url: '' @
            ''https://fdp.example/catalog/1/meta/state'')
   \<and> map_sum record_of_error id
        (fst (create_and_publish (ex_net [created_1, error_500 ''down'']) ex_client ex_world
                ''catalog'' ex_graph))
     = Inl (Some ''https://fdp.example/catalog/1'')"
  by (simp add: create_and_publish_result [OF serialize_ex_graph] serialize_ex_graph run_defs
      record_of_error_def)

text \<open>
  C10, amended. \<open>create_and_publish\<close> returns a value only when the graph
  serialised, the create request was answered without error with that value as
  \<open>Location\<close> header, and the publish request was answered without error too.
  When the create request succeeded and the publish request failed with the
  library's exception \<open>e\<close>, the call raises an \<open>FDPClientException\<close> and returns no
  identity; the message of the error is a fixed prefix followed by the text of
  \<open>e\<close>, and \<open>e\<close> is chained to it (two contexts down). When the publish request
  was answered with a status from 400 to 599, that text ends with the URL the
  library reports for the response and the chained exception holds the response;
  when that URL is the \<open>Location\<close> value followed by \<open>/meta/state\<close> (the URL of
  the publish request for an absolute \<open>Location\<close> value, nothing being redirected),
  \<open>record_of_error\<close> reads the identity off the raised error.
\<close>

theorem create_and_publish_all_or_error:
  "(\<forall>y. fst (create_and_publish n c w resource_type metadata) = Inr y \<longrightarrow>
      (\<exists>data resp r2.
         serialize metadata = Inr data
         \<and> checked (respond n (sent w) (create_request n c resource_type data)) = Inr resp
         \<and> resp_headers resp ''Location'' = Some y
         \<and> checked (respond n (sent w @ [create_request n c resource_type data])
                     (state_request n c y)) = Inr r2))
   \<and> (\<forall>data resp x e.
        serialize metadata = Inr data
        \<and> checked (respond n (sent w) (create_request n c resource_type data)) = Inr resp
        \<and> resp_headers resp ''Location'' = Some x
        \<and> checked (respond n (sent w @ [create_request n c resource_type data])
                    (state_request n c x)) = Inl e
        \<longrightarrow> fst (create_and_publish n c w resource_type metadata)
              = Inl (FDPClientException
                      (''Failed to create and publish record:'' @ ''Request failed:'' @ str e)
                      (Some (FDPClientException (''Request failed:'' @ str e) (Some e)))))
   \<and> (\<forall>data resp x r.
        serialize metadata = Inr data
        \<and> checked (respond n (sent w) (create_request n c resource_type data)) = Inr resp
        \<and> resp_headers resp ''Location'' = Some x
        \<and> respond n (sent w @ [create_request n c resource_type data]) (state_request n c x)
            = Returns r
        \<and> 400 \<le> status_code r \<and> status_code r < 600
        \<longrightarrow> map_sum str id (fst (create_and_publish n c w resource_type metadata))
              = Inl (''Failed to create and publish record:'' @ ''Request failed:'' @ http_error_msg r)
            \<and> (\<exists>pre. http_error_msg r = pre @ '' for url: '' @ resp_url r)
            \<and> map_sum chained_response id (fst (create_and_publish n c w resource_type metadata))
              = Inl (Some r)
            \<and> (resp_url r = x @ ''/meta/state'' \<longrightarrow>
                 map_sum record_of_error id (fst (create_and_publish n c w resource_type metadata))
                   = Inl (Some x)))"
proof (intro conjI allI impI)
  fix y
  assume a: "fst (create_and_publish n c w resource_type metadata) = Inr y"
  show "\<exists>data resp r2.
         serialize metadata = Inr data
         \<and> checked (respond n (sent w) (create_request n c resource_type data)) = Inr resp
         \<and> resp_headers resp ''Location'' = Some y
         \<and> checked (respond n (sent w @ [create_request n c resource_type data])
                     (state_request n c y)) = Inr r2"
  proof (cases "serialize metadata")
    case (Inl e)
    then show ?thesis
      using a create_and_publish_raises [OF Inl, of n c w resource_type]
      by (simp split: if_splits)
  next
    case (Inr data)
    then show ?thesis
      using a by (auto simp: create_and_publish_result [OF Inr] split: sum.splits option.splits)
  qed
next
  fix data resp x e
  assume a: "serialize metadata = Inr data
        \<and> checked (respond n (sent w) (create_request n c resource_type data)) = Inr resp
        \<and> resp_headers resp ''Location'' = Some x
        \<and> checked (respond n (sent w @ [create_request n c resource_type data])
                    (state_request n c x)) = Inl e"
  then have s: "serialize metadata = Inr data" by simp
  show "fst (create_and_publish n c w resource_type metadata)
              = Inl (FDPClientException
                      (''Failed to create and publish record:'' @ ''Request failed:'' @ str e)
                      (Some (FDPClientException (''Request failed:'' @ str e) (Some e))))"
    using a by (simp add: create_and_publish_result [OF s] not_published_def request_failed_def)
next
  fix data resp x r
  assume a: "serialize metadata = Inr data
        \<and> checked (respond n (sent w) (create_request n c resource_type data)) = Inr resp
        \<and> resp_headers resp ''Location'' = Some x
        \<and> respond n (sent w @ [create_request n c resource_type data]) (state_request n c x)
            = Returns r
        \<and> 400 \<le> status_code r \<and> status_code r < 600"
  then have s: "serialize metadata = Inr data" by simp
  have r: "fst (create_and_publish n c w resource_type metadata)
           = Inl (not_published (request_failed (RequestException (http_error_msg r) (Some r))))"
    using a by (simp add: create_and_publish_result [OF s] checked_Returns)
  show "map_sum str id (fst (create_and_publish n c w resource_type metadata))
              = Inl (''Failed to create and publish record:'' @ ''Request failed:'' @ http_error_msg r)"
    by (simp add: r not_published_def request_failed_def)
  show "\<exists>pre. http_error_msg r = pre @ '' for url: '' @ resp_url r"
    using a http_error_msg_names_url by blast
  show "map_sum chained_response id (fst (create_and_publish n c w resource_type metadata))
              = Inl (Some r)"
    by (simp add: r not_published_def request_failed_def)
  show "map_sum record_of_error id (fst (create_and_publish n c w resource_type metadata))
                   = Inl (Some x)"
    if "resp_url r = x @ ''/meta/state''"
    using that by (simp add: r not_published_def request_failed_def record_of_error_def)
qed

theorem create_and_publish_all_or_error_witness:
  "map_sum str id
     (fst (create_and_publish (ex_net [created_1, timed_out]) ex_client ex_world ''catalog'' ex_graph))
     = Inl ''Failed to create and publish record:Request failed:Read timed out.''
   \<and> map_sum chained_response id
       (fst (create_and_publish (ex_net [created_1, error_500 ''down'']) ex_client ex_world
               ''catalog'' ex_graph))
     = Inl (Some \<lparr>status_code = 500, resp_reason = ''Internal Server Error'',
                  resp_url = ''https://fdp.example/catalog/1/meta/state'',
                  resp_headers = Map.empty, resp_text = ''down'',
                  resp_json = JsonError ''not json''\<rparr>)
   \<and> map_sum record_of_error id
       (fst (create_and_publish (ex_net [created_1, error_500 ''down'']) ex_client ex_world
               ''catalog'' ex_graph))
     = Inl (Some ''https://fdp.example/catalog/1'')
   \<and> fst (create_and_publish (ex_net [created_1, ok_200]) ex_client ex_world ''catalog'' ex_graph)
     = Inr ''https://fdp.example/catalog/1''
   \<and> (\<exists>data resp r2.
         serialize ex_graph = Inr data
         \<and> checked (respond (ex_net [created_1, ok_200]) (sent ex_world)
                      (create_request (ex_net [created_1, ok_200]) ex_client ''catalog'' data))
             = Inr resp
         \<and> resp_headers resp ''Location'' = Some ''https://fdp.example/catalog/1''
         \<and> checked (respond (ex_net [created_1, ok_200])
                      (sent ex_world @
                       [create_request (ex_net [created_1, ok_200]) ex_client ''catalog'' data])
                      (state_request (ex_net [created_1, ok_200]) ex_client
                         ''https://fdp.example/catalog/1'')) = Inr r2)"
proof -
  let ?d = "''<http://example.com/test_catalog> a dcat:Catalog .''"
  let ?x = "''https://fdp.example/catalog/1''"
  let ?r1 = "\<lparr>status_code = 201, resp_reason = ''Created'',
                resp_url = ''https://fdp.example/catalog'',
                resp_headers = [''Location'' \<mapsto> ''https://fdp.example/catalog/1''],
                resp_text = [], resp_json = JsonError ''no body''\<rparr>"
  let ?r2 = "\<lparr>status_code = 500, resp_reason = ''Internal Server Error'',
                resp_url = ''https://fdp.example/catalog/1/meta/state'',
                resp_headers = Map.empty, resp_text = ''down'',
                resp_json = JsonError ''not json''\<rparr>"
  let ?t = "ex_net [created_1, timed_out]"
  let ?n = "ex_net [created_1, error_500 ''down'']"
  let ?m = "ex_net [created_1, ok_200]"
  have t1: "checked (respond ?t (sent ex_world) (create_request ?t ex_client ''catalog'' ?d)) = Inr ?r1"
    by (simp add: ex_defs req_defs)
  have t2: "checked (respond ?t (sent ex_world @ [create_request ?t ex_client ''catalog'' ?d])
                       (state_request ?t ex_client ?x))
            = Inl (RequestException ''Read timed out.'' None)"
    by (simp add: ex_defs req_defs)
  have n1: "checked (respond ?n (sent ex_world) (create_request ?n ex_client ''catalog'' ?d)) = Inr ?r1"
    by (simp add: ex_defs req_defs)
  have n2: "respond ?n (sent ex_world @ [create_request ?n ex_client ''catalog'' ?d])
              (state_request ?n ex_client ?x) = Returns ?r2"
    by (simp add: ex_defs req_defs)
  have m: "fst (create_and_publish ?m ex_client ex_world ''catalog'' ex_graph) = Inr ?x"
    by (simp add: create_and_publish_result [OF serialize_ex_graph] run_defs)
  have 1: "fst (create_and_publish ?t ex_client ex_world ''catalog'' ex_graph)
           = Inl (FDPClientException
                   (''Failed to create and publish record:'' @ ''Request failed:'' @
                    str (RequestException ''Read timed out.'' None))
                   (Some (FDPClientException
                           (''Request failed:'' @ str (RequestException ''Read timed out.'' None))
                           (Some (RequestException ''Read timed out.'' None)))))"
    using create_and_publish_all_or_error [of ?t ex_client ex_world "''catalog''" ex_graph,
        THEN conjunct2, THEN conjunct1, rule_format,
        of ?d ?r1 ?x "RequestException ''Read timed out.'' None"]
      serialize_ex_graph t1 t2
    by simp
  have 2: "map_sum chained_response id
             (fst (create_and_publish ?n ex_client ex_world ''catalog'' ex_graph)) = Inl (Some ?r2)
           \<and> map_sum record_of_error id
             (fst (create_and_publish ?n ex_client ex_world ''catalog'' ex_graph)) = Inl (Some ?x)"
    using create_and_publish_all_or_error [of ?n ex_client ex_world "''catalog''" ex_graph,
        THEN conjunct2, THEN conjunct2, rule_format, of ?d ?r1 ?x ?r2]
      serialize_ex_graph n1 n2
    by simp
  have 3: "\<exists>data resp r2.
         serialize ex_graph = Inr data
         \<and> checked (respond ?m (sent ex_world) (create_request ?m ex_client ''catalog'' data)) = Inr resp
         \<and> resp_headers resp ''Location'' = Some ?x
         \<and> checked (respond ?m (sent ex_world @ [create_request ?m ex_client ''catalog'' data])
                      (state_request ?m ex_client ?x)) = Inr r2"
    using create_and_publish_all_or_error [of ?m ex_client ex_world "''catalog''" ex_graph,
        THEN conjunct1, rule_format, of ?x] m
    by simp
  show ?thesis
    using 1 2 3 m by simp
qed

subsection \<open>Construction and login\<close>

lemma login_fdp_sent:
  "sent (snd (login_fdp n w base user pw)) = sent w @ [login_request n base user pw]"
  by (simp add: login_fdp_def send_def split: sum.splits exn.splits)

lemma login_fdp_result:
  "fst (login_fdp n w base user pw) =
   (case login_body (respond n (sent w) (login_request n base user pw)) of
      Inr t \<Rightarrow> Inr t
    | Inl e \<Rightarrow> (case e of RequestException m ro \<Rightarrow>
                   Inl (FDPClientException (''Login failed: '' @ m) (Some (RequestException m ro)))
               | _ \<Rightarrow> Inl e))"
  by (simp add: login_fdp_def send_def split: sum.splits exn.splits)

lemma login_fdp_logged:
  "logged (snd (login_fdp n w base user pw)) =
   (case login_body (respond n (sent w) (login_request n base user pw)) of
      Inr t \<Rightarrow> logged w
    | Inl e \<Rightarrow> (case e of RequestException m ro \<Rightarrow> logged w @ [''Login failed: '' @ m]
               | _ \<Rightarrow> logged w))"
  by (simp add: login_fdp_def send_def split: sum.splits exn.splits)

lemma init_sent:
  "sent (snd (FDPClient_init n w base user pw v)) = sent w @ [login_request n base user pw]"
proof -
  obtain r w1 where p: "login_fdp n w base user pw = (r, w1)"
    by (cases "login_fdp n w base user pw") auto
  then show ?thesis
    using login_fdp_sent [of n w base user pw]
    by (auto simp: FDPClient_init_def split: sum.splits)
qed

lemma init_result:
  "fst (FDPClient_init n w base user pw v) =
   (case fst (login_fdp n w base user pw) of
      Inl e \<Rightarrow> Inl e
    | Inr tok \<Rightarrow>
        Inr \<lparr>base_url = base, username = user, password = pw, token = tok,
             headers = get_headers tok,
             session_headers = default_headers n ++ get_headers tok,
             ssl_verification = v\<rparr>)"
  by (cases "login_fdp n w base user pw") (auto simp: FDPClient_init_def split: sum.splits)

lemma bearer_change: "bearer t c \<Longrightarrow> bearer t (change_content_type a c)"
  by (simp add: bearer_def change_content_type_def update_session_headers_def map_add_def)

lemma authorised_session: "bearer t c \<Longrightarrow> authorised t (session_request n c m p q d)"
  by (simp add: bearer_def authorised_def session_request_def)

lemma authorised_create: "bearer t c \<Longrightarrow> authorised t (create_request n c rt data)"
  unfolding create_request_def by (intro authorised_session bearer_change)

lemma authorised_state: "bearer t c \<Longrightarrow> authorised t (state_request n c x)"
  unfolding state_request_def by (intro authorised_session bearer_change)

lemma authorised_step: "bearer t c \<Longrightarrow> list_all (authorised t) (step_requests n c w rt data)"
  by (simp add: step_requests_def authorised_create authorised_state split: sum.splits option.splits)

lemma run_call_bearer:
  assumes b: "bearer t c"
  shows "bearer t (fst (run_call n c w x))"
proof (cases x)
  case (Create_and_publish rt md)
  show ?thesis
  proof (cases "serialize md")
    case (Inl e)
    then show ?thesis
      using b Create_and_publish create_and_publish_raises [OF Inl, of n c w rt]
      by (simp add: bearer_change)
  next
    case (Inr data)
    then show ?thesis
      using b Create_and_publish
      by (simp add: create_and_publish_client [OF Inr] bearer_change split: sum.splits option.splits)
  qed
qed (use b in \<open>simp_all add: post_serialised_client publish_record_client bearer_change\<close>)

lemma run_call_sent:
  assumes b: "bearer t c"
  shows "\<exists>rs. sent (snd (run_call n c w x)) = sent w @ rs \<and> list_all (authorised t) rs"
proof (cases x)
  case (Get p q)
  then show ?thesis
    using b by (simp add: get_def call_method_sent upper_GET authorised_session)
next
  case (Post p q d)
  then show ?thesis
    using b by (simp add: post_def call_method_sent upper_POST authorised_session)
next
  case (Update p q d)
  then show ?thesis
    using b by (simp add: update_def call_method_sent upper_PUT authorised_session)
next
  case (Delete p q d)
  then show ?thesis
    using b by (simp add: delete_def call_method_sent upper_DELETE authorised_session)
next
  case (Post_serialised rt md)
  show ?thesis
  proof (cases "serialize md")
    case (Inl e)
    then show ?thesis
      using Post_serialised by (simp add: post_serialised_raises)
  next
    case (Inr data)
    then show ?thesis
      using b Post_serialised by (simp add: post_serialised_sent [OF Inr] authorised_create)
  qed
next
  case (Publish_record u)
  then show ?thesis
    using b by (simp add: publish_record_sent authorised_state)
next
  case (Create_and_publish rt md)
  show ?thesis
  proof (cases "serialize md")
    case (Inl e)
    then show ?thesis
      using Create_and_publish create_and_publish_raises [OF Inl, of n c w rt] by simp
  next
    case (Inr data)
    then show ?thesis
      using b Create_and_publish by (simp add: create_and_publish_sent [OF Inr] authorised_step)
  qed
qed

lemma run_calls_sent:
  "bearer t c \<Longrightarrow> \<exists>rs. sent (snd (run_calls n c w xs)) = sent w @ rs \<and> list_all (authorised t) rs"
proof (induction xs arbitrary: c w)
  case Nil
  then show ?case by simp
next
  case (Cons x xs)
  obtain c1 w1 where p: "run_call n c w x = (c1, w1)"
    by (cases "run_call n c w x") auto
  have b1: "bearer t c1"
    using run_call_bearer [OF Cons.prems, of n w x] p by simp
  obtain rs where rs: "sent w1 = sent w @ rs" "list_all (authorised t) rs"
    using run_call_sent [OF Cons.prems, of n w x] p by auto
  obtain rs' where rs': "sent (snd (run_calls n c1 w1 xs)) = sent w1 @ rs'" "list_all (authorised t) rs'"
    using Cons.IH [OF b1, of w1] by auto
  show ?case
    using p rs rs' by (intro exI [of _ "rs @ rs'"]) simp
qed

lemma run_calls_authorised:
  "bearer t c \<Longrightarrow> list_all (authorised t) (new_requests w (snd (run_calls n c w xs)))"
  using run_calls_sent [of t c n w xs] by (auto simp: new_requests_def)

lemma login_body_Raises: "login_body (Raises m ro) = Inl (RequestException m ro)"
  by (simp add: login_body_def checked_def)

lemma login_body_error:
  "400 \<le> status_code resp \<Longrightarrow> status_code resp < 600 \<Longrightarrow>
   login_body (Returns resp) = Inl (RequestException (http_error_msg resp) (Some resp))"
  by (simp add: login_body_def checked_Returns)

lemma login_body_token:
  "\<not> (400 \<le> status_code resp \<and> status_code resp < 600) \<Longrightarrow> resp_json resp = JsonDict d \<Longrightarrow>
   d ''token'' = Some t \<Longrightarrow> login_body (Returns resp) = Inr t"
  by (simp add: login_body_def checked_Returns)

lemma bearer_init:
  "bearer t \<lparr>base_url = base, username = user, password = pw, token = t,
             headers = get_headers t,
             session_headers = default_headers n ++ get_headers t,
             ssl_verification = v\<rparr>"
  by (simp add: bearer_def get_headers_def map_add_def)

lemmas login_defs = login_ok_def login_300_def login_401_def login_request_def

text \<open>
  C3, as stated, fails: a login request answered with status 300 (not a 2xx status)
  and a body holding a token does not make construction fail; the client is
  built and stores the token.
\<close>

theorem client_construction_300:
  "respond (ex_net [login_300]) (sent ex_world)
      (login_request (ex_net [login_300]) ''https://fdp.example'' ''u@example.com'' ''pw'')
     = Returns \<lparr>status_code = 300, resp_reason = ''Multiple Choices'',
                resp_url = ''https://fdp.example/tokens'', resp_headers = Map.empty,
                resp_text = [], resp_json = JsonDict [''token'' \<mapsto> ''tok'']\<rparr>
   \<and> map_sum str token
        (fst (FDPClient_init (ex_net [login_300]) ex_world ''https://fdp.example'' ''u@example.com''
                ''pw'' True))
     = Inr ''tok''"
  by (simp add: init_result login_fdp_result login_body_def ex_defs login_defs)

text \<open>
  C3, amended. Construction sends exactly one request, the login request: a \<open>POST\<close>
  to the base URL followed by \<open>/tokens\<close> whose JSON body holds the email and the
  password. When sending it raises, or it is answered with a status from 400 to
  599, construction raises \<open>FDPClientException\<close> and no client exists. When it is
  answered with any other status and a JSON object with a \<open>token\<close> field,
  construction returns a client that stores that field, and every request the
  client sends afterwards, whatever its methods are called with, carries the
  header \<open>Authorization: Bearer\<close> followed by the token.
\<close>

theorem client_construction:
  "new_requests w (snd (FDPClient_init n w base user pw verify_ssl)) =
     [\<lparr>req_method = ''POST'', req_url = base @ ''/tokens'', req_headers = default_headers n,
       req_params = None, req_data = None,
       req_json = Some [(''email'', user), (''password'', pw)], req_verify = None\<rparr>]
   \<and> (\<forall>m ro. respond n (sent w) (login_request n base user pw) = Raises m ro \<longrightarrow>
         fst (FDPClient_init n w base user pw verify_ssl)
           = Inl (FDPClientException (''Login failed: '' @ m) (Some (RequestException m ro))))
   \<and> (\<forall>resp. respond n (sent w) (login_request n base user pw) = Returns resp
         \<and> 400 \<le> status_code resp \<and> status_code resp < 600 \<longrightarrow>
         fst (FDPClient_init n w base user pw verify_ssl)
           = Inl (FDPClientException (''Login failed: '' @ http_error_msg resp)
                   (Some (RequestException (http_error_msg resp) (Some resp)))))
   \<and> (\<forall>resp d t. respond n (sent w) (login_request n base user pw) = Returns resp
         \<and> \<not> (400 \<le> status_code resp \<and> status_code resp < 600)
         \<and> resp_json resp = JsonDict d \<and> d ''token'' = Some t \<longrightarrow>
         (\<exists>c. fst (FDPClient_init n w base user pw verify_ssl) = Inr c
              \<and> token c = t
              \<and> (\<forall>w' calls.
                    list_all (authorised t) (new_requests w' (snd (run_calls n c w' calls))))))"
proof (intro conjI allI impI)
  show "new_requests w (snd (FDPClient_init n w base user pw verify_ssl)) =
     [\<lparr>req_method = ''POST'', req_url = base @ ''/tokens'', req_headers = default_headers n,
       req_params = None, req_data = None,
       req_json = Some [(''email'', user), (''password'', pw)], req_verify = None\<rparr>]"
    by (simp add: new_requests_def init_sent login_request_def)
next
  fix m ro
  assume "respond n (sent w) (login_request n base user pw) = Raises m ro"
  then show "fst (FDPClient_init n w base user pw verify_ssl)
           = Inl (FDPClientException (''Login failed: '' @ m) (Some (RequestException m ro)))"
    by (simp add: init_result login_fdp_result login_body_Raises)
next
  fix resp
  assume "respond n (sent w) (login_request n base user pw) = Returns resp
         \<and> 400 \<le> status_code resp \<and> status_code resp < 600"
  then show "fst (FDPClient_init n w base user pw verify_ssl)
           = Inl (FDPClientException (''Login failed: '' @ http_error_msg resp)
                   (Some (RequestException (http_error_msg resp) (Some resp))))"
    by (simp add: init_result login_fdp_result login_body_error)
next
  fix resp d t
  assume a: "respond n (sent w) (login_request n base user pw) = Returns resp
         \<and> \<not> (400 \<le> status_code resp \<and> status_code resp < 600)
         \<and> resp_json resp = JsonDict d \<and> d ''token'' = Some t"
  let ?c = "\<lparr>base_url = base, username = user, password = pw, token = t,
             headers = get_headers t,
             session_headers = default_headers n ++ get_headers t,
             ssl_verification = verify_ssl\<rparr>"
  have "login_body (Returns resp) = Inr t"
    using a login_body_token [of resp d t] by blast
  then have "fst (FDPClient_init n w base user pw verify_ssl) = Inr ?c"
    using a by (simp add: init_result login_fdp_result)
  moreover have "token ?c = t" by simp
  moreover have "\<forall>w' calls. list_all (authorised t) (new_requests w' (snd (run_calls n ?c w' calls)))"
    using run_calls_authorised [OF bearer_init] by blast
  ultimately show "\<exists>c. fst (FDPClient_init n w base user pw verify_ssl) = Inr c
              \<and> token c = t
              \<and> (\<forall>w' calls.
                    list_all (authorised t) (new_requests w' (snd (run_calls n c w' calls))))"
    by blast
qed

theorem client_construction_witness:
  "map_sum str id
     (fst (FDPClient_init (ex_net []) ex_world ''https://fdp.example'' ''u@example.com'' ''pw'' True))
     = Inl ''Login failed: connection refused''
   \<and> map_sum str id
       (fst (FDPClient_init (ex_net [login_401]) ex_world ''https://fdp.example'' ''u@example.com''
               ''pw'' True))
     = Inl ''Login failed: 401 Client Error: Unauthorized for url: https://fdp.example/tokens''
   \<and> (\<exists>c. fst (FDPClient_init (ex_net [login_ok, created_1, ok_200]) ex_world ''https://fdp.example''
                  ''u@example.com'' ''pw'' True) = Inr c
          \<and> token c = ''tok''
          \<and> list_all (authorised ''tok'')
               (new_requests ex_world
                  (snd (run_calls (ex_net [login_ok, created_1, ok_200]) c ex_world
                          [Create_and_publish ''catalog'' ex_graph,
                           Get ''https://fdp.example/catalog/1'' None]))))"
proof -
  let ?b = "''https://fdp.example''" and ?u = "''u@example.com''" and ?p = "''pw''"
  let ?r401 = "\<lparr>status_code = 401, resp_reason = ''Unauthorized'',
                resp_url = ''https://fdp.example/tokens'', resp_headers = Map.empty,
                resp_text = ''bad credentials'', resp_json = JsonError ''not json''\<rparr>"
  have a: "respond (ex_net []) (sent ex_world) (login_request (ex_net []) ?b ?u ?p)
           = Raises ''connection refused'' None"
    by (simp add: ex_defs)
  have b: "respond (ex_net [login_401]) (sent ex_world) (login_request (ex_net [login_401]) ?b ?u ?p)
           = Returns ?r401"
    by (simp add: ex_defs login_defs)
  let ?n = "ex_net [login_ok, created_1, ok_200]"
  have c: "respond ?n (sent ex_world) (login_request ?n ?b ?u ?p)
           = Returns \<lparr>status_code = 200, resp_reason = ''OK'',
                resp_url = ''https://fdp.example/tokens'', resp_headers = Map.empty,
                resp_text = [], resp_json = JsonDict [''token'' \<mapsto> ''tok'']\<rparr>"
    by (simp add: ex_defs login_defs)
  have 1: "map_sum str id (fst (FDPClient_init (ex_net []) ex_world ?b ?u ?p True))
     = Inl ''Login failed: connection refused''"
    using client_construction [of ex_world "ex_net []" ?b ?u ?p True] a by simp
  have 2: "map_sum str id (fst (FDPClient_init (ex_net [login_401]) ex_world ?b ?u ?p True))
     = Inl ''Login failed: 401 Client Error: Unauthorized for url: https://fdp.example/tokens''"
    using client_construction [of ex_world "ex_net [login_401]" ?b ?u ?p True,
        THEN conjunct2, THEN conjunct2, THEN conjunct1, rule_format, of ?r401] b
    by (simp add: http_error_msg_def show_nat_401)
  have 3: "\<exists>c. fst (FDPClient_init ?n ex_world ?b ?u ?p True) = Inr c
              \<and> token c = ''tok''
              \<and> (\<forall>w' calls.
                    list_all (authorised ''tok'') (new_requests w' (snd (run_calls ?n c w' calls))))"
    using client_construction [of ex_world ?n ?b ?u ?p True] c by simp
  show ?thesis using 1 2 3 by blast
qed

text \<open>
  C9. The login request does not depend on \<open>verify_ssl\<close> and carries no \<open>verify\<close>
  argument, so the library verifies the certificate: when sending it raises (as it
  does for a host whose certificate is not trusted), construction with
  \<open>verify_ssl = False\<close> raises \<open>FDPClientException\<close>. Every request a constructed
  client sends through \<open>_call_method\<close> carries \<open>verify = verify_ssl\<close>.
\<close>

theorem login_always_verified:
  "new_requests w (snd (FDPClient_init n w base user pw verify_ssl)) = [login_request n base user pw]
   \<and> req_verify (login_request n base user pw) = None
   \<and> (\<forall>m ro. respond n (sent w) (login_request n base user pw) = Raises m ro \<longrightarrow>
         fst (FDPClient_init n w base user pw False)
           = Inl (FDPClientException (''Login failed: '' @ m) (Some (RequestException m ro))))
   \<and> (\<forall>c w' method path params data.
         fst (FDPClient_init n w base user pw verify_ssl) = Inr c
         \<and> upper method \<in> set [''GET'', ''POST'', ''PUT'', ''DELETE''] \<longrightarrow>
         new_requests w' (snd (call_method n c w' method path params data))
           = [session_request n c method path params data]
         \<and> req_verify (session_request n c method path params data) = Some verify_ssl)"
proof (intro conjI allI impI)
  show "new_requests w (snd (FDPClient_init n w base user pw verify_ssl)) = [login_request n base user pw]"
    by (simp add: new_requests_def init_sent)
  show "req_verify (login_request n base user pw) = None"
    by (simp add: login_request_def)
next
  fix m ro
  assume "respond n (sent w) (login_request n base user pw) = Raises m ro"
  then show "fst (FDPClient_init n w base user pw False)
           = Inl (FDPClientException (''Login failed: '' @ m) (Some (RequestException m ro)))"
    by (simp add: init_result login_fdp_result login_body_Raises)
next
  fix c w' and meth :: string and path params data
  assume a: "fst (FDPClient_init n w base user pw verify_ssl) = Inr c
         \<and> upper meth \<in> set [''GET'', ''POST'', ''PUT'', ''DELETE'']"
  then show "new_requests w' (snd (call_method n c w' meth path params data))
           = [session_request n c meth path params data]"
    using call_method_sent [where c = c and w = w'] by (simp add: new_requests_def)
  have "ssl_verification c = verify_ssl"
    using a by (auto simp: init_result split: sum.splits)
  then show "req_verify (session_request n c meth path params data) = Some verify_ssl"
    by (simp add: session_request_def)
qed

theorem login_always_verified_witness:
  "map_sum str id
     (fst (FDPClient_init untrusted_net ex_world ''https://fdp.example'' ''u@example.com'' ''pw'' False))
     = Inl ''Login failed: certificate verify failed''
   \<and> (\<exists>c. fst (FDPClient_init (ex_net [login_ok]) ex_world ''https://fdp.example'' ''u@example.com''
                  ''pw'' False) = Inr c
        \<and> req_verify (session_request (ex_net [login_ok]) c ''GET'' ''https://fdp.example/catalog/1''
                        None None) = Some False)
   \<and> map_sum str status_code
        (fst (call_method untrusted_net (ex_client\<lparr>ssl_verification := False\<rparr>) ex_world ''GET''
                ''https://fdp.example/catalog/1'' None None))
     = Inr 200"
proof -
  let ?b = "''https://fdp.example''" and ?u = "''u@example.com''" and ?p = "''pw''"
  have a: "respond untrusted_net (sent ex_world) (login_request untrusted_net ?b ?u ?p)
           = Raises ''certificate verify failed'' None"
    by (simp add: untrusted_net_def untrusted_host_def login_request_def)
  have 1: "map_sum str id (fst (FDPClient_init untrusted_net ex_world ?b ?u ?p False))
     = Inl ''Login failed: certificate verify failed''"
    using login_always_verified [of ex_world untrusted_net ?b ?u ?p False] a by simp
  let ?n = "ex_net [login_ok]"
  let ?c = "\<lparr>base_url = ?b, username = ?u, password = ?p, token = ''tok'',
             headers = get_headers ''tok'',
             session_headers = default_headers ?n ++ get_headers ''tok'',
             ssl_verification = False\<rparr>"
  have b: "fst (FDPClient_init ?n ex_world ?b ?u ?p False) = Inr ?c"
    by (simp add: init_result login_fdp_result login_body_def ex_defs login_defs)
  have g: "upper ''GET'' \<in> set [''GET'', ''POST'', ''PUT'', ''DELETE'']"
    by (simp add: upper_GET)
  have 2: "req_verify (session_request ?n ?c ''GET'' ''https://fdp.example/catalog/1'' None None) = Some False"
    using login_always_verified [of ex_world ?n ?b ?u ?p False] b g by blast
  have 3: "map_sum str status_code
        (fst (call_method untrusted_net (ex_client\<lparr>ssl_verification := False\<rparr>) ex_world ''GET''
                ''https://fdp.example/catalog/1'' None None))
     = Inr 200"
    using g by (simp add: call_method_result session_request_def untrusted_net_def untrusted_host_def
        ex_defs)
  show ?thesis using 1 b 2 3 by blast
qed

subsection \<open>The client's exception\<close>

lemma call_method_error:
  assumes "supported method" and "fst (call_method n c w method path params data) = Inl e"
  shows "\<exists>m ro. e = FDPClientException (''Request failed:'' @ m) (Some (RequestException m ro))"
proof -
  from assms obtain e' where e': "e = request_failed e'"
    "checked (respond n (sent w) (session_request n c method path params data)) = Inl e'"
    by (auto simp: supported_def call_method_result split: sum.splits)
  then obtain m ro where "e' = RequestException m ro"
    using checked_Inl by blast
  then show ?thesis using e' by (simp add: request_failed_def)
qed

lemma call_method_logged:
  assumes "supported method"
    and "respond n (sent w) (session_request n c method path params data) = Returns resp"
    and "400 \<le> status_code resp" and "status_code resp < 600"
  shows "logged (snd (call_method n c w method path params data)) =
           logged w @ [''Request failed:'' @ http_error_msg resp, resp_text resp]"
  using assms
  by (simp add: supported_def call_method_def send_def session_request_def checked_Returns)

text \<open>
  C4, as stated, fails: a non-success status is not always surfaced as an error.
  A publish request answered with status 300 raises nothing: \<open>publish_record\<close>
  returns normally and \<open>create_and_publish\<close> returns the identity.
\<close>

theorem status_300_is_no_error:
  "serialize ex_graph = Inr ''<http://example.com/test_catalog> a dcat:Catalog .''
   \<and> respond (ex_net [created_1, status_300])
       (sent ex_world @
        [create_request (ex_net [created_1, status_300]) ex_client ''catalog''
           ''<http://example.com/test_catalog> a dcat:Catalog .''])
       (state_request (ex_net [created_1, status_300]) ex_client ''https://fdp.example/catalog/1'')
     = Returns \<lparr>status_code = 300, resp_reason = ''Multiple Choices'',
          resp_url = ''https://fdp.example/catalog/1/meta/state'', resp_headers = Map.empty,
          resp_text = [], resp_json = JsonError ''no body''\<rparr>
   \<and> fst (create_and_publish (ex_net [created_1, status_300]) ex_client ex_world ''catalog'' ex_graph)
     = Inr ''https://fdp.example/catalog/1''
   \<and> fst (publish_record (ex_net [status_300]) ex_client ex_world ''https://fdp.example/catalog/1'')
     = Inr ()"
  by (simp add: create_and_publish_result [OF serialize_ex_graph] publish_record_result
      serialize_ex_graph run_defs)

text \<open>
  C4, amended. Each of these failures is raised as \<open>FDPClientException\<close>: any
  failure of \<open>create_and_publish\<close> for a graph that serialises (a failed create or
  publish request, a missing \<open>Location\<close> header), any failure of a request sent
  through \<open>_call_method\<close> with a supported method (a failure in the network, a
  status from 400 to 599), and a login request that raises or is answered with a
  status from 400 to 599. The exception carries a message, which is a fixed prefix
  followed by the text of its cause, and, chained to it as its context, the cause
  itself: the \<open>KeyError\<close> of the missing header, or the library's exception (one
  context further down for \<open>create_and_publish\<close>), which holds the response, body
  included, when the request was answered with a status from 400 to 599. So a
  missing header, a failed request and the body of the response can be told
  from the exception without reading its message. \<open>_call_method\<close> also writes
  the body of such a response to the log; \<open>login_fdp\<close> logs the message only.
\<close>

theorem failures_are_client_exceptions:
  "(\<forall>data e. serialize metadata = Inr data
        \<and> fst (create_and_publish n c w resource_type metadata) = Inl e \<longrightarrow>
        (\<exists>cause. e = FDPClientException (''Failed to create and publish record:'' @ str cause)
                       (Some cause)
            \<and> (cause = KeyError ''location''
               \<or> (\<exists>m ro. cause = FDPClientException (''Request failed:'' @ m)
                                    (Some (RequestException m ro))))))
   \<and> (\<forall>data resp. serialize metadata = Inr data
        \<and> respond n (sent w) (create_request n c resource_type data) = Returns resp
        \<and> 400 \<le> status_code resp \<and> status_code resp < 600 \<longrightarrow>
        fst (create_and_publish n c w resource_type metadata)
          = Inl (FDPClientException
                  (''Failed to create and publish record:'' @ ''Request failed:'' @ http_error_msg resp)
                  (Some (FDPClientException (''Request failed:'' @ http_error_msg resp)
                          (Some (RequestException (http_error_msg resp) (Some resp)))))))
   \<and> (\<forall>e. supported meth \<and> fst (call_method n c w meth path params body) = Inl e \<longrightarrow>
        (\<exists>m ro. e = FDPClientException (''Request failed:'' @ m) (Some (RequestException m ro))))
   \<and> (\<forall>m ro. supported meth
        \<and> respond n (sent w) (session_request n c meth path params body) = Raises m ro \<longrightarrow>
        fst (call_method n c w meth path params body)
          = Inl (FDPClientException (''Request failed:'' @ m) (Some (RequestException m ro))))
   \<and> (\<forall>resp. supported meth
        \<and> respond n (sent w) (session_request n c meth path params body) = Returns resp
        \<and> 400 \<le> status_code resp \<and> status_code resp < 600 \<longrightarrow>
        fst (call_method n c w meth path params body)
          = Inl (FDPClientException (''Request failed:'' @ http_error_msg resp)
                  (Some (RequestException (http_error_msg resp) (Some resp))))
        \<and> logged (snd (call_method n c w meth path params body))
          = logged w @ [''Request failed:'' @ http_error_msg resp, resp_text resp])
   \<and> (\<forall>m ro. respond n (sent w) (login_request n base user pw) = Raises m ro \<longrightarrow>
        fst (login_fdp n w base user pw)
          = Inl (FDPClientException (''Login failed: '' @ m) (Some (RequestException m ro)))
        \<and> logged (snd (login_fdp n w base user pw)) = logged w @ [''Login failed: '' @ m])
   \<and> (\<forall>resp. respond n (sent w) (login_request n base user pw) = Returns resp
        \<and> 400 \<le> status_code resp \<and> status_code resp < 600 \<longrightarrow>
        fst (login_fdp n w base user pw)
          = Inl (FDPClientException (''Login failed: '' @ http_error_msg resp)
                  (Some (RequestException (http_error_msg resp) (Some resp))))
        \<and> logged (snd (login_fdp n w base user pw))
          = logged w @ [''Login failed: '' @ http_error_msg resp])
   \<and> (\<forall>data resp. serialize metadata = Inr data
        \<and> checked (respond n (sent w) (create_request n c resource_type data)) = Inr resp
        \<and> resp_headers resp ''Location'' = None \<longrightarrow>
        fst (create_and_publish n c w resource_type metadata)
          = Inl (FDPClientException
                  (''Failed to create and publish record:'' @ str (KeyError ''location''))
                  (Some (KeyError ''location''))))
   \<and> (\<forall>resp. respond n (sent w) (state_request n c record_url) = Returns resp
        \<and> 400 \<le> status_code resp \<and> status_code resp < 600 \<longrightarrow>
        fst (publish_record n c w record_url)
          = Inl (FDPClientException (''Request failed:'' @ http_error_msg resp)
                  (Some (RequestException (http_error_msg resp) (Some resp)))))"
proof (intro conjI allI impI)
  fix data e
  assume a: "serialize metadata = Inr data
        \<and> fst (create_and_publish n c w resource_type metadata) = Inl e"
  then have s: "serialize metadata = Inr data" by simp
  from a consider "e = not_published (KeyError ''location'')"
    | e' where "e = not_published (request_failed e')" "\<exists>m ro. e' = RequestException m ro"
    by (auto simp: create_and_publish_result [OF s] split: sum.splits option.splits
        dest: checked_Inl)
  then show "\<exists>cause. e = FDPClientException (''Failed to create and publish record:'' @ str cause)
                       (Some cause)
            \<and> (cause = KeyError ''location''
               \<or> (\<exists>m ro. cause = FDPClientException (''Request failed:'' @ m)
                                    (Some (RequestException m ro))))"
  proof cases
    case 1
    then show ?thesis by (simp add: not_published_def)
  next
    case 2
    then show ?thesis by (auto simp: not_published_def request_failed_def)
  qed
next
  fix data resp
  assume a: "serialize metadata = Inr data
        \<and> respond n (sent w) (create_request n c resource_type data) = Returns resp
        \<and> 400 \<le> status_code resp \<and> status_code resp < 600"
  then have s: "serialize metadata = Inr data" by simp
  show "fst (create_and_publish n c w resource_type metadata)
          = Inl (FDPClientException
                  (''Failed to create and publish record:'' @ ''Request failed:'' @ http_error_msg resp)
                  (Some (FDPClientException (''Request failed:'' @ http_error_msg resp)
                          (Some (RequestException (http_error_msg resp) (Some resp))))))"
    using a by (simp add: create_and_publish_result [OF s] checked_Returns not_published_def
        request_failed_def)
next
  fix e
  assume "supported meth \<and> fst (call_method n c w meth path params body) = Inl e"
  then show "\<exists>m ro. e = FDPClientException (''Request failed:'' @ m) (Some (RequestException m ro))"
    using call_method_error by blast
next
  fix m ro
  assume "supported meth
        \<and> respond n (sent w) (session_request n c meth path params body) = Raises m ro"
  then show "fst (call_method n c w meth path params body)
          = Inl (FDPClientException (''Request failed:'' @ m) (Some (RequestException m ro)))"
    by (simp add: supported_def call_method_result checked_Raises request_failed_def)
next
  fix resp
  assume a: "supported meth
        \<and> respond n (sent w) (session_request n c meth path params body) = Returns resp
        \<and> 400 \<le> status_code resp \<and> status_code resp < 600"
  then show "fst (call_method n c w meth path params body)
          = Inl (FDPClientException (''Request failed:'' @ http_error_msg resp)
                  (Some (RequestException (http_error_msg resp) (Some resp))))"
    by (simp add: supported_def call_method_result checked_Returns request_failed_def)
  show "logged (snd (call_method n c w meth path params body))
          = logged w @ [''Request failed:'' @ http_error_msg resp, resp_text resp]"
    using a call_method_logged by blast
next
  fix m ro
  assume a: "respond n (sent w) (login_request n base user pw) = Raises m ro"
  then show "fst (login_fdp n w base user pw)
          = Inl (FDPClientException (''Login failed: '' @ m) (Some (RequestException m ro)))"
    by (simp add: login_fdp_result login_body_Raises)
  show "logged (snd (login_fdp n w base user pw)) = logged w @ [''Login failed: '' @ m]"
    using a by (simp add: login_fdp_logged login_body_Raises)
next
  fix resp
  assume a: "respond n (sent w) (login_request n base user pw) = Returns resp
        \<and> 400 \<le> status_code resp \<and> status_code resp < 600"
  then show "fst (login_fdp n w base user pw)
          = Inl (FDPClientException (''Login failed: '' @ http_error_msg resp)
                  (Some (RequestException (http_error_msg resp) (Some resp))))"
    by (simp add: login_fdp_result login_body_error)
  show "logged (snd (login_fdp n w base user pw))
          = logged w @ [''Login failed: '' @ http_error_msg resp]"
    using a by (simp add: login_fdp_logged login_body_error)
next
  fix data resp
  assume a: "serialize metadata = Inr data
        \<and> checked (respond n (sent w) (create_request n c resource_type data)) = Inr resp
        \<and> resp_headers resp ''Location'' = None"
  then have s: "serialize metadata = Inr data" by simp
  show "fst (create_and_publish n c w resource_type metadata)
          = Inl (FDPClientException
                  (''Failed to create and publish record:'' @ str (KeyError ''location''))
                  (Some (KeyError ''location'')))"
    using a by (simp add: create_and_publish_result [OF s] not_published_def)
next
  fix resp
  assume "respond n (sent w) (state_request n c record_url) = Returns resp
        \<and> 400 \<le> status_code resp \<and> status_code resp < 600"
  then show "fst (publish_record n c w record_url)
          = Inl (FDPClientException (''Request failed:'' @ http_error_msg resp)
                  (Some (RequestException (http_error_msg resp) (Some resp))))"
    by (simp add: publish_record_result checked_Returns request_failed_def)
qed

theorem failures_are_client_exceptions_witness:
  "fst (create_and_publish (ex_net [created_no_location]) ex_client ex_world ''catalog'' ex_graph)
     = Inl (FDPClientException
             (''Failed to create and publish record:'' @ str (KeyError ''location''))
             (Some (KeyError ''location'')))
   \<and> map_sum (\<lambda>e. map_option resp_text (chained_response e)) id
       (fst (create_and_publish (ex_net [error_500 ''schema violation'']) ex_client ex_world
               ''catalog'' ex_graph))
     = Inl (Some ''schema violation'')
   \<and> map_sum str id
       (fst (call_method (ex_net [error_500 ''schema violation'']) ex_client ex_world ''POST''
               ''https://fdp.example/catalog'' None (Some ''text'')))
     = Inl (''Request failed:500 Server Error: Internal Server Error for url: '' @
            ''https://fdp.example/catalog'')
   \<and> logged (snd (call_method (ex_net [error_500 ''schema violation'']) ex_client ex_world ''POST''
                     ''https://fdp.example/catalog'' None (Some ''text'')))
     = [''Request failed:500 Server Error: Internal Server Error for url: '' @
        ''https://fdp.example/catalog'',
        ''schema violation'']
   \<and> fst (login_fdp (ex_net []) ex_world ''https://fdp.example'' ''u@example.com'' ''pw'')
     = Inl (FDPClientException ''Login failed: connection refused''
             (Some (RequestException ''connection refused'' None)))
   \<and> logged (snd (login_fdp (ex_net [login_401]) ex_world ''https://fdp.example'' ''u@example.com''
                     ''pw''))
     = [''Login failed: 401 Client Error: Unauthorized for url: https://fdp.example/tokens'']"
proof -
  let ?b = "''https://fdp.example''" and ?u = "''u@example.com''" and ?p = "''pw''"
  let ?d = "''<http://example.com/test_catalog> a dcat:Catalog .''"
  let ?n = "ex_net [created_no_location]"
  let ?k = "ex_net [error_500 ''schema violation'']"
  let ?r500 = "\<lparr>status_code = 500, resp_reason = ''Internal Server Error'',
                resp_url = ''https://fdp.example/catalog'', resp_headers = Map.empty,
                resp_text = ''schema violation'', resp_json = JsonError ''not json''\<rparr>"
  let ?r401 = "\<lparr>status_code = 401, resp_reason = ''Unauthorized'',
                resp_url = ''https://fdp.example/tokens'', resp_headers = Map.empty,
                resp_text = ''bad credentials'', resp_json = JsonError ''not json''\<rparr>"
  have m500: "http_error_msg ?r500 =
     ''500 Server Error: Internal Server Error for url: https://fdp.example/catalog''"
    by (simp add: http_error_msg_def show_nat_500)
  have m401: "http_error_msg ?r401 =
     ''401 Client Error: Unauthorized for url: https://fdp.example/tokens''"
    by (simp add: http_error_msg_def show_nat_401)
  let ?r201 = "\<lparr>status_code = 201, resp_reason = ''Created'',
                resp_url = ''https://fdp.example/catalog'', resp_headers = Map.empty,
                resp_text = [], resp_json = JsonError ''no body''\<rparr>"
  have cn: "checked (respond ?n (sent ex_world) (create_request ?n ex_client ''catalog'' ?d))
            = Inr ?r201"
    by (simp add: ex_defs req_defs)
  have 0: "fst (create_and_publish ?n ex_client ex_world ''catalog'' ex_graph)
     = Inl (FDPClientException
             (''Failed to create and publish record:'' @ str (KeyError ''location''))
             (Some (KeyError ''location'')))"
    using failures_are_client_exceptions [where n = ?n and c = ex_client and w = ex_world
        and resource_type = "''catalog''" and metadata = ex_graph,
        THEN conjunct2, THEN conjunct2, THEN conjunct2, THEN conjunct2, THEN conjunct2,
        THEN conjunct2, THEN conjunct2, THEN conjunct1, rule_format, of ?d ?r201]
      serialize_ex_graph cn
    by simp
  have 1: "\<exists>cause. FDPClientException
                    (''Failed to create and publish record:'' @ str (KeyError ''location''))
                    (Some (KeyError ''location''))
              = FDPClientException (''Failed to create and publish record:'' @ str cause) (Some cause)
            \<and> (cause = KeyError ''location''
               \<or> (\<exists>m ro. cause = FDPClientException (''Request failed:'' @ m)
                                    (Some (RequestException m ro))))"
    using failures_are_client_exceptions [where n = ?n and c = ex_client and w = ex_world
        and resource_type = "''catalog''" and metadata = ex_graph,
        THEN conjunct1, rule_format, of ?d]
      serialize_ex_graph 0
    by simp
  have c500: "respond ?k (sent ex_world) (create_request ?k ex_client ''catalog'' ?d) = Returns ?r500"
    by (simp add: ex_defs req_defs)
  have 2: "fst (create_and_publish ?k ex_client ex_world ''catalog'' ex_graph)
          = Inl (FDPClientException
                  (''Failed to create and publish record:'' @ ''Request failed:'' @ http_error_msg ?r500)
                  (Some (FDPClientException (''Request failed:'' @ http_error_msg ?r500)
                          (Some (RequestException (http_error_msg ?r500) (Some ?r500))))))"
    using failures_are_client_exceptions [where n = ?k and c = ex_client and w = ex_world
        and resource_type = "''catalog''" and metadata = ex_graph,
        THEN conjunct2, THEN conjunct1, rule_format, of ?d ?r500]
      serialize_ex_graph c500
    by simp
  have s: "supported ''POST''"
    by (simp add: supported_def upper_POST)
  have r: "respond ?k (sent ex_world)
             (session_request ?k ex_client ''POST'' ''https://fdp.example/catalog'' None (Some ''text''))
           = Returns ?r500"
    by (simp add: ex_defs req_defs)
  have 3: "fst (call_method ?k ex_client ex_world ''POST'' ''https://fdp.example/catalog'' None
                 (Some ''text''))
             = Inl (FDPClientException (''Request failed:'' @ http_error_msg ?r500)
                     (Some (RequestException (http_error_msg ?r500) (Some ?r500))))
           \<and> logged (snd (call_method ?k ex_client ex_world ''POST'' ''https://fdp.example/catalog''
                             None (Some ''text'')))
             = logged ex_world @ [''Request failed:'' @ http_error_msg ?r500, resp_text ?r500]"
    using failures_are_client_exceptions [where n = ?k and c = ex_client and w = ex_world
        and meth = "''POST''" and path = "''https://fdp.example/catalog''" and params = None
        and body = "Some ''text''",
        THEN conjunct2, THEN conjunct2, THEN conjunct2, THEN conjunct2, THEN conjunct1,
        rule_format, of ?r500]
      s r
    by simp
  have a: "respond (ex_net []) (sent ex_world) (login_request (ex_net []) ?b ?u ?p)
           = Raises ''connection refused'' None"
    by (simp add: ex_defs)
  have 4: "fst (login_fdp (ex_net []) ex_world ?b ?u ?p)
     = Inl (FDPClientException ''Login failed: connection refused''
             (Some (RequestException ''connection refused'' None)))"
    using failures_are_client_exceptions [where n = "ex_net []" and w = ex_world
        and base = ?b and user = ?u and pw = ?p,
        THEN conjunct2, THEN conjunct2, THEN conjunct2, THEN conjunct2, THEN conjunct2,
        THEN conjunct1, rule_format, of "''connection refused''" None]
      a
    by simp
  have b: "respond (ex_net [login_401]) (sent ex_world) (login_request (ex_net [login_401]) ?b ?u ?p)
           = Returns ?r401"
    by (simp add: ex_defs login_defs)
  have 5: "logged (snd (login_fdp (ex_net [login_401]) ex_world ?b ?u ?p))
     = logged ex_world @ [''Login failed: '' @ http_error_msg ?r401]"
    using failures_are_client_exceptions [where n = "ex_net [login_401]" and w = ex_world
        and base = ?b and user = ?u and pw = ?p,
        THEN conjunct2, THEN conjunct2, THEN conjunct2, THEN conjunct2, THEN conjunct2,
        THEN conjunct2, THEN conjunct1, rule_format, of ?r401]
      b
    by simp
  show ?thesis
    using 0 2 3 4 5
    by (simp add: m500 m401 ex_world_def)
qed

subsection \<open>The loop over the datasets\<close>









subsection \<open>Validation of mandatory fields\<close>

text \<open>
  C7. Validation is a function of the schema and the values alone (no request is
  involved). When a mandatory field is absent, validation fails with one
  \<open>MissingFieldError\<close> that lists exactly the absent mandatory fields, all of them.
  For the catalog schema, whose mandatory fields are \<open>title\<close> and \<open>description\<close>, an
  instance with a title and no description fails naming \<open>description\<close>.
\<close>

theorem validate_lists_every_missing_field:
  "(\<forall>f. f \<in> set (mandatoryFields schema) \<and> absent vals f \<longrightarrow>
      validate schema vals = Inl (MissingFieldError (filter (absent vals) (mandatoryFields schema)))
      \<and> set (filter (absent vals) (mandatoryFields schema))
          = {g \<in> set (mandatoryFields schema). absent vals g}
      \<and> f \<in> set (filter (absent vals) (mandatoryFields schema)))
   \<and> mandatoryFields catalog_schema = [''title'', ''description'']
   \<and> validate catalog_schema [''title'' \<mapsto> [LiteralValue ''Test catalog'' None]]
       = Inl (MissingFieldError [''description''])"
proof (intro conjI allI impI)
  fix f
  assume a: "f \<in> set (mandatoryFields schema) \<and> absent vals f"
  then have "filter (absent vals) (mandatoryFields schema) \<noteq> []"
    by (auto simp: filter_empty_conv)
  then show "validate schema vals = Inl (MissingFieldError (filter (absent vals) (mandatoryFields schema)))"
    by (simp add: validate_def)
  show "set (filter (absent vals) (mandatoryFields schema))
          = {g \<in> set (mandatoryFields schema). absent vals g}"
    by auto
  show "f \<in> set (filter (absent vals) (mandatoryFields schema))"
    using a by simp
next
  show m: "mandatoryFields catalog_schema = [''title'', ''description'']"
    by (simp add: mandatoryFields_def catalog_schema_def)
  show "validate catalog_schema [''title'' \<mapsto> [LiteralValue ''Test catalog'' None]]
       = Inl (MissingFieldError [''description''])"
    by (simp add: validate_def m absent_def)
qed

theorem validate_lists_every_missing_field_witness:
  "''description'' \<in> set (mandatoryFields catalog_schema)
   \<and> absent Map.empty ''description''
   \<and> validate catalog_schema Map.empty = Inl (MissingFieldError [''title'', ''description''])"
proof -
  have a: "''description'' \<in> set (mandatoryFields catalog_schema)"
    by (simp add: mandatoryFields_def catalog_schema_def)
  have b: "absent Map.empty ''description''"
    by (simp add: absent_def)
  have "validate catalog_schema Map.empty
          = Inl (MissingFieldError (filter (absent Map.empty) (mandatoryFields catalog_schema)))"
    using validate_lists_every_missing_field [of catalog_schema Map.empty] a b
    by blast
  then have "validate catalog_schema Map.empty = Inl (MissingFieldError [''title'', ''description''])"
    by (simp add: mandatoryFields_def catalog_schema_def absent_def)
  then show ?thesis
    using a b by simp
qed

end
